theory Spec2Isabelle
  imports Main "HOL-Library.Sublist" "HOL-Library.Multiset"
begin

section \<open>Go values\<close>

text \<open>
  A Go string is a sequence of bytes, here a \<^typ>\<open>string\<close>. A Go slice is either nil or
  a sequence of elements: \<open>None\<close> is the nil slice, \<open>Some xs\<close> a non-nil slice holding
  \<open>xs\<close>. \<open>len\<close> and \<open>range\<close> see no difference between nil and empty; \<open>reflect.DeepEqual\<close>
  does.
\<close>

type_synonym 'a slice = "'a list option"

definition elems :: "'a slice \<Rightarrow> 'a list" where
  "elems s = (case s of None \<Rightarrow> [] | Some xs \<Rightarrow> xs)"

definition append1 :: "'a slice \<Rightarrow> 'a \<Rightarrow> 'a slice" where
  "append1 s x = Some (elems s @ [x])"

subsection \<open>Package strings\<close>

definition HasPrefix :: "string \<Rightarrow> string \<Rightarrow> bool" where
  "HasPrefix s p = prefix p s"

definition TrimPrefix :: "string \<Rightarrow> string \<Rightarrow> string" where
  "TrimPrefix s p = (if HasPrefix s p then drop (length p) s else s)"

fun Contains :: "string \<Rightarrow> string \<Rightarrow> bool" where
  "Contains [] sub = (sub = [])"
| "Contains (c # cs) sub = (prefix sub (c # cs) \<or> Contains cs sub)"

text \<open>
  \<open>strings.TrimSpace\<close> removes leading and trailing white space as Unicode defines it.
  On bytes these are the six ASCII space characters and the UTF-8 encodings of U+0085,
  U+00A0, U+1680, U+2000 to U+200A, U+2028, U+2029, U+202F, U+205F and U+3000.
\<close>

definition spaceSeqs :: "string list" where
  "spaceSeqs =
    [[CHR 0x09], [CHR 0x0A], [CHR 0x0B], [CHR 0x0C], [CHR 0x0D], [CHR 0x20],
     [CHR 0xC2, CHR 0x85], [CHR 0xC2, CHR 0xA0],
     [CHR 0xE1, CHR 0x9A, CHR 0x80],
     [CHR 0xE2, CHR 0x80, CHR 0x80], [CHR 0xE2, CHR 0x80, CHR 0x81],
     [CHR 0xE2, CHR 0x80, CHR 0x82], [CHR 0xE2, CHR 0x80, CHR 0x83],
     [CHR 0xE2, CHR 0x80, CHR 0x84], [CHR 0xE2, CHR 0x80, CHR 0x85],
     [CHR 0xE2, CHR 0x80, CHR 0x86], [CHR 0xE2, CHR 0x80, CHR 0x87],
     [CHR 0xE2, CHR 0x80, CHR 0x88], [CHR 0xE2, CHR 0x80, CHR 0x89],
     [CHR 0xE2, CHR 0x80, CHR 0x8A],
     [CHR 0xE2, CHR 0x80, CHR 0xA8], [CHR 0xE2, CHR 0x80, CHR 0xA9],
     [CHR 0xE2, CHR 0x80, CHR 0xAF], [CHR 0xE2, CHR 0x81, CHR 0x9F],
     [CHR 0xE3, CHR 0x80, CHR 0x80]]"

function trimLeftSeqs :: "string list \<Rightarrow> string \<Rightarrow> string" where
  "trimLeftSeqs seqs s =
     (case find (\<lambda>sp. sp \<noteq> [] \<and> prefix sp s) seqs of
        None \<Rightarrow> s
      | Some sp \<Rightarrow> trimLeftSeqs seqs (drop (length sp) s))"
  by pat_completeness auto
termination
proof (relation "measure (\<lambda>(seqs, s). length s)")
  fix seqs :: "string list" and s sp :: string
  assume "find (\<lambda>sp. sp \<noteq> [] \<and> prefix sp s) seqs = Some sp"
  then have "sp \<noteq> []" and "prefix sp s"
    by (auto simp: find_Some_iff)
  then have "s \<noteq> []" by auto
  with \<open>sp \<noteq> []\<close> show "((seqs, drop (length sp) s), (seqs, s)) \<in> measure (\<lambda>(seqs, s). length s)"
    by simp
qed simp

declare trimLeftSeqs.simps [simp del]

definition TrimLeftSpace :: "string \<Rightarrow> string" where
  "TrimLeftSpace s = trimLeftSeqs spaceSeqs s"

definition TrimRightSpace :: "string \<Rightarrow> string" where
  "TrimRightSpace s = rev (trimLeftSeqs (map rev spaceSeqs) (rev s))"

definition TrimSpace :: "string \<Rightarrow> string" where
  "TrimSpace s = TrimRightSpace (TrimLeftSpace s)"

text \<open>
  \<open>strings.Split(s, sep)\<close> for a non-empty separator: the pieces between successive
  non-overlapping occurrences of \<open>sep\<close>, found from the left. \<open>splitFrom sep cur s\<close>
  carries the piece \<open>cur\<close> read so far.
\<close>

function splitFrom :: "string \<Rightarrow> string \<Rightarrow> string \<Rightarrow> string list" where
  "splitFrom sep cur [] = [cur]"
| "splitFrom sep cur (c # cs) =
     (if sep \<noteq> [] \<and> prefix sep (c # cs)
      then cur # splitFrom sep [] (drop (length sep) (c # cs))
      else splitFrom sep (cur @ [c]) cs)"
  by pat_completeness auto
termination
  by (relation "measure (\<lambda>(sep, cur, s). length s)") (auto simp: neq_Nil_conv)

definition Split :: "string \<Rightarrow> string \<Rightarrow> string list" where
  "Split s sep = splitFrom sep [] s"

section \<open>Label selectors (pkg/targets/label\_selector.go)\<close>

record Labels =
  Included :: "string slice"
  Excluded :: "string slice"

text \<open>The body of the loop over the parts of the selector.\<close>

definition addPart :: "Labels \<Rightarrow> string \<Rightarrow> Labels" where
  "addPart labels part0 =
     (let part = TrimSpace part0 in
      if part = [] then labels
      else if HasPrefix part ''!'' then
        (let excluded = TrimSpace (TrimPrefix part ''!'') in
         if excluded \<noteq> [] then labels\<lparr>Excluded := append1 (Excluded labels) excluded\<rparr>
         else labels)
      else labels\<lparr>Included := append1 (Included labels) part\<rparr>)"

definition ParseLabelSelector :: "string \<Rightarrow> Labels" where
  "ParseLabelSelector selector =
     (let labels = \<lparr>Included = Some [], Excluded = Some []\<rparr> in
      if selector = [] then labels
      else foldl addPart labels (Split selector ''||''))"

section \<open>Numbers and pointers as \<open>fmt\<close> prints them\<close>

definition digitOf :: "nat \<Rightarrow> char" where
  "digitOf d = ''0123456789abcdef'' ! (d mod 16)"

function showBase :: "nat \<Rightarrow> nat \<Rightarrow> string" where
  "showBase b n =
     (if n < b \<or> b < 2 then [digitOf n] else showBase b (n div b) @ [digitOf (n mod b)])"
  by pat_completeness auto
termination
  by (relation "measure (\<lambda>(b, n). n)") auto

declare showBase.simps [simp del]

text \<open>\<open>strconv.Itoa\<close>, and the verb \<open>%d\<close> of \<open>fmt\<close>.\<close>

definition Itoa :: "int \<Rightarrow> string" where
  "Itoa i = (if i < 0 then ''-'' @ showBase 10 (nat (- i)) else showBase 10 (nat i))"

text \<open>
  A pointer is nil or an address together with the value stored there. \<open>==\<close> on pointers
  compares addresses; \<open>reflect.DeepEqual\<close> accepts equal addresses or deeply equal
  pointees; \<open>%v\<close> prints the address of a pointer to a string or an int, and \<open><nil>\<close>
  for nil.
\<close>

type_synonym 'a ptr = "(nat \<times> 'a) option"

definition ptrEq :: "'a ptr \<Rightarrow> 'a ptr \<Rightarrow> bool" where
  "ptrEq p q = (map_option fst p = map_option fst q)"

definition deepEqualPtr :: "('a \<Rightarrow> 'a \<Rightarrow> bool) \<Rightarrow> 'a ptr \<Rightarrow> 'a ptr \<Rightarrow> bool" where
  "deepEqualPtr eq p q =
     (case p of
        None \<Rightarrow> (case q of None \<Rightarrow> True | Some _ \<Rightarrow> False)
      | Some (a, x) \<Rightarrow> (case q of None \<Rightarrow> False | Some (b, y) \<Rightarrow> a = b \<or> eq x y))"

definition fmtPtr :: "'a ptr \<Rightarrow> string" where
  "fmtPtr p = (case p of None \<Rightarrow> ''<nil>'' | Some (a, _) \<Rightarrow> ''0x'' @ showBase 16 a)"

definition deepEqualSlice :: "('a \<Rightarrow> 'a \<Rightarrow> bool) \<Rightarrow> 'a slice \<Rightarrow> 'a slice \<Rightarrow> bool" where
  "deepEqualSlice eq s t =
     (case s of
        None \<Rightarrow> (case t of None \<Rightarrow> True | Some _ \<Rightarrow> False)
      | Some xs \<Rightarrow> (case t of None \<Rightarrow> False | Some ys \<Rightarrow> list_all2 eq xs ys))"

text \<open>
  A Go map is nil or a set of entries with distinct keys. The entries are listed in the
  order in which \<open>range\<close> visits them (Go leaves that order open, so nothing below depends
  on it). Reading a missing key gives the zero value of the value type.
\<close>

type_synonym ('k, 'v) gomap = "('k \<times> 'v) list option"

definition index :: "('k, 'v) gomap \<Rightarrow> 'k \<Rightarrow> 'v option" where
  "index m k = map_of (elems m) k"

text \<open>\<open>maps.Equal\<close>: the same number of entries, and every entry of the first in the second.\<close>

definition mapsEqual :: "('k, 'v) gomap \<Rightarrow> ('k, 'v) gomap \<Rightarrow> bool" where
  "mapsEqual m1 m2 =
     (length (elems m1) = length (elems m2) \<and>
      list_all (\<lambda>(k, v1). index m2 k = Some v1) (elems m1))"

definition deepEqualMap :: "('v \<Rightarrow> 'v \<Rightarrow> bool) \<Rightarrow> ('k, 'v) gomap \<Rightarrow> ('k, 'v) gomap \<Rightarrow> bool" where
  "deepEqualMap eq m1 m2 =
     (case m1 of
        None \<Rightarrow> (case m2 of None \<Rightarrow> True | Some _ \<Rightarrow> False)
      | Some xs \<Rightarrow>
         (case m2 of
            None \<Rightarrow> False
          | Some ys \<Rightarrow>
              length xs = length ys \<and>
              list_all (\<lambda>(k, v1). case map_of ys k of None \<Rightarrow> False | Some v2 \<Rightarrow> eq v1 v2) xs))"

section \<open>Analysis results\<close>

text \<open>
  The result types of the analyzer (package \<open>konveyor\<close>), with the fields the validator
  reads. \<open>'v\<close> is the type of the values an incident's variables hold (\<open>interface{}\<close> in
  Go); equality on \<open>'v\<close> stands for \<open>reflect.DeepEqual\<close> on them. A category is a string
  type; category, effort and line number are held by pointer. \<open>Message_inc\<close> is the field
  \<open>Message\<close> of an incident, \<open>Description_rs\<close> and \<open>Errors_rs\<close> are the fields
  \<open>Description\<close> and \<open>Errors\<close> of a ruleset; the plain names are those of a violation
  and of the validator's own types.
\<close>

record Link =
  URL :: string
  Title :: string

record 'v Incident =
  URI :: string
  Message_inc :: string
  CodeSnip :: string
  LineNumber :: "int ptr"
  Variables :: "(string, 'v) gomap"

record 'v Violation =
  Description :: string
  Category :: "string ptr"
  Labels :: "string slice"
  Incidents :: "'v Incident slice"
  Links :: "Link slice"
  Extras :: "char slice"
  Effort :: "int ptr"

record 'v RuleSet =
  Name :: string
  Description_rs :: string
  Tags :: "string slice"
  Violations :: "(string, 'v Violation) gomap"
  Insights :: "(string, 'v Violation) gomap"
  Errors_rs :: "(string, string) gomap"
  Unmatched :: "string slice"
  Skipped :: "string slice"

definition zeroViolation :: "'v Violation" where
  "zeroViolation =
     \<lparr>Description = [], Category = None, Labels = None, Incidents = None, Links = None,
      Extras = None, Effort = None\<rparr>"

definition deepEqualIncident :: "'v Incident \<Rightarrow> 'v Incident \<Rightarrow> bool" where
  "deepEqualIncident i j =
     (URI i = URI j \<and> Message_inc i = Message_inc j \<and> CodeSnip i = CodeSnip j \<and>
      deepEqualPtr (=) (LineNumber i) (LineNumber j) \<and>
      deepEqualMap (=) (Variables i) (Variables j))"

definition deepEqualViolation :: "'v Violation \<Rightarrow> 'v Violation \<Rightarrow> bool" where
  "deepEqualViolation v w =
     (Description v = Description w \<and>
      deepEqualPtr (=) (Category v) (Category w) \<and>
      deepEqualSlice (=) (Labels v) (Labels w) \<and>
      deepEqualSlice deepEqualIncident (Incidents v) (Incidents w) \<and>
      deepEqualSlice (=) (Links v) (Links w) \<and>
      deepEqualSlice (=) (Extras v) (Extras w) \<and>
      deepEqualPtr (=) (Effort v) (Effort w))"

text \<open>
  Functions of other libraries that the comparers call: \<open>Filename\<close> of a URI (which
  panics on a URI whose scheme is not \<open>file\<close>: \<open>None\<close>), \<open>filepath.Join\<close> of two
  elements, \<open>filepath.Rel\<close> (\<open>None\<close> when it returns an error), and what \<open>%v\<close> prints for
  an incident.
\<close>

record 'v library =
  Filename :: "string \<Rightarrow> string option"
  Join :: "string \<Rightarrow> string \<Rightarrow> string"
  Rel :: "string \<Rightarrow> string \<Rightarrow> string option"
  fmtIncident :: "'v Incident \<Rightarrow> string"

text \<open>\<open>%v\<close> of a link prints its two fields between braces.\<close>

definition fmtLink :: "Link \<Rightarrow> string" where
  "fmtLink l = ''{'' @ URL l @ '' '' @ Title l @ ''}''"

fun JoinStrings :: "string list \<Rightarrow> string \<Rightarrow> string" where
  "JoinStrings [] sep = []"
| "JoinStrings [x] sep = x"
| "JoinStrings (x # y # ys) sep = x @ sep @ JoinStrings (y # ys) sep"

section \<open>The validator (pkg/validator)\<close>

datatype 'v anyval = ANil | AString string | AViolation "'v Violation"

record 'v ValidationError =
  Path :: string
  Message :: string
  Expected :: "'v anyval"
  Actual :: "'v anyval"

record 'v ValidationResult =
  Passed :: bool
  Errors :: "'v ValidationError list"

datatype panic = NilDereference | NotAFileURI

fun findExpectedString :: "string \<Rightarrow> string list \<Rightarrow> bool" where
  "findExpectedString expected [] = False"
| "findExpectedString expected (a # actual) =
     (if expected = a then True else findExpectedString expected actual)"

subsection \<open>The comparer of the CLI backend (kantra\_validator.go)\<close>

record kantra =
  testDir :: string

definition kantra_compareTag ::
  "kantra \<Rightarrow> string \<Rightarrow> string slice \<Rightarrow> 'v ValidationError option \<times> bool" where
  "kantra_compareTag k expected actual =
     (if findExpectedString expected (elems actual) then (None, False)
      else (Some \<lparr>Path = [], Message = ''Did not find expected tag: '' @ expected,
                  Expected = AString expected, Actual = ANil\<rparr>, True))"

definition kantra_compareErrors ::
  "kantra \<Rightarrow> string \<Rightarrow> string \<Rightarrow> 'v ValidationError option \<times> bool" where
  "kantra_compareErrors k expected actual =
     (if expected \<noteq> actual
      then (Some \<lparr>Path = [], Message = ''Did not find expected error: '' @ expected,
                  Expected = AString expected, Actual = ANil\<rparr>, True)
      else (None, False))"

definition kantra_compareUnmatched ::
  "kantra \<Rightarrow> string \<Rightarrow> string slice \<Rightarrow> 'v ValidationError option \<times> bool" where
  "kantra_compareUnmatched k expected actual =
     (if findExpectedString expected (elems actual) then (None, False)
      else (Some \<lparr>Path = [], Message = ''Did not find expected unmatched rule: '' @ expected,
                  Expected = AString expected, Actual = ANil\<rparr>, True))"

definition kantra_compareSkipped ::
  "kantra \<Rightarrow> string \<Rightarrow> string slice \<Rightarrow> 'v ValidationError option \<times> bool" where
  "kantra_compareSkipped k expected actual =
     (if findExpectedString expected (elems actual) then (None, False)
      else (Some \<lparr>Path = [], Message = ''Did not find expected skipped rule: '' @ expected,
                  Expected = AString expected, Actual = ANil\<rparr>, True))"

text \<open>
  The first four checks of \<open>compareViolation\<close>. The two comparers carry the same text
  for them, so they are written once. Each gives the errors it appends.
\<close>

definition categoryErrors :: "'v Violation \<Rightarrow> 'v Violation \<Rightarrow> 'v ValidationError list" where
  "categoryErrors expected actual =
     (if \<not> ptrEq (Category expected) (Category actual)
      then [\<lparr>Path = [],
             Message = ''Did not find expected category: '' @ fmtPtr (Category expected),
             Expected = AViolation expected, Actual = ANil\<rparr>]
      else [])"

definition effortErrors :: "'v Violation \<Rightarrow> 'v Violation \<Rightarrow> 'v ValidationError list" where
  "effortErrors expected actual =
     (if \<not> ptrEq (Effort expected) (Effort actual)
      then [\<lparr>Path = [],
             Message = ''Did not find expected effort: '' @ fmtPtr (Effort expected),
             Expected = AViolation expected, Actual = ANil\<rparr>]
      else [])"

text \<open>The inner loop over the actual links: it stops at the first link that matches.\<close>

fun linkFound :: "Link \<Rightarrow> Link list \<Rightarrow> bool" where
  "linkFound l [] = False"
| "linkFound l (al # als) =
     (if Title l = Title al \<and> URL l = Title al then True else linkFound l als)"

definition linkErrors :: "'v Violation \<Rightarrow> 'v Violation \<Rightarrow> 'v ValidationError list" where
  "linkErrors expected actual =
     concat (map (\<lambda>l.
       if \<not> linkFound l (elems (Links actual))
       then [\<lparr>Path = [], Message = ''Did not find expected links: '' @ fmtLink l,
              Expected = AViolation expected, Actual = ANil\<rparr>]
       else []) (elems (Links expected)))"

definition labelErrors :: "'v Violation \<Rightarrow> 'v Violation \<Rightarrow> 'v ValidationError list" where
  "labelErrors expected actual =
     concat (map (\<lambda>l.
       if findExpectedString l (elems (Labels actual)) then []
       else [\<lparr>Path = [], Message = ''Did not find expected label: '' @ l,
              Expected = AViolation expected, Actual = ANil\<rparr>]) (elems (Labels expected)))"

text \<open>
  The loop over the actual incidents, for one expected incident. Its body ends in one of
  four ways: \<open>continue\<close>, \<open>break\<close>, \<open>found = true\<close> (after which the loop goes on), or a
  panic inside \<open>Filename\<close>.
\<close>

datatype loopAction = Continue | Break | SetFound | Panics

fun findIncident :: "('a \<Rightarrow> loopAction) \<Rightarrow> 'a list \<Rightarrow> bool \<Rightarrow> panic + bool" where
  "findIncident body [] found = Inr found"
| "findIncident body (ai # rest) found =
     (case body ai of
        Continue \<Rightarrow> findIncident body rest found
      | Break \<Rightarrow> Inr found
      | SetFound \<Rightarrow> findIncident body rest True
      | Panics \<Rightarrow> Inl NotAFileURI)"

text \<open>The last three tests of the body: message, line number, variables.\<close>

definition incidentRest :: "'v Incident \<Rightarrow> 'v Incident \<Rightarrow> loopAction" where
  "incidentRest i ai =
     (if Message_inc i \<noteq> Message_inc ai then Continue
      else if \<not> ptrEq (LineNumber i) (LineNumber ai) then Continue
      else if \<not> deepEqualMap (=) (Variables i) (Variables ai) then Continue
      else SetFound)"

text \<open>The path test: the expected file, taken relative to \<open>testDir/source\<close>, must occur in the actual file name.\<close>

definition pathStep ::
  "'v library \<Rightarrow> kantra \<Rightarrow> 'v Incident \<Rightarrow> 'v Incident \<Rightarrow> loopAction" where
  "pathStep L k i ai =
     (case Filename L (URI i) of
        None \<Rightarrow> Panics
      | Some fi \<Rightarrow>
         (case Rel L (Join L (testDir k) ''source'') fi of
            None \<Rightarrow> Break
          | Some pathToTest \<Rightarrow>
             (case Filename L (URI ai) of
                None \<Rightarrow> Panics
              | Some fa \<Rightarrow>
                  if \<not> Contains fa pathToTest then Continue else incidentRest i ai)))"

definition kantra_incidentBody ::
  "'v library \<Rightarrow> kantra \<Rightarrow> 'v Incident \<Rightarrow> 'v Incident \<Rightarrow> loopAction" where
  "kantra_incidentBody L k i ai =
     (if TrimSpace (CodeSnip i) \<noteq> TrimSpace (CodeSnip ai) then Continue
      else if URI i = [] \<or> URI ai = [] then
        (if URI i \<noteq> URI ai then Continue else incidentRest i ai)
      else pathStep L k i ai)"

text \<open>The loop over the expected incidents collects those that were not found.\<close>

fun kantra_missingIncidents ::
  "'v library \<Rightarrow> kantra \<Rightarrow> 'v Incident list \<Rightarrow> 'v Incident list \<Rightarrow> panic + 'v Incident list" where
  "kantra_missingIncidents L k [] actual = Inr []"
| "kantra_missingIncidents L k (i # expected) actual =
     (case findIncident (kantra_incidentBody L k i) actual False of
        Inl p \<Rightarrow> Inl p
      | Inr found \<Rightarrow>
         (case kantra_missingIncidents L k expected actual of
            Inl p \<Rightarrow> Inl p
          | Inr missing \<Rightarrow> Inr (if found then missing else i # missing)))"

definition missingError ::
  "'v Violation \<Rightarrow> 'v Violation \<Rightarrow> 'v Incident list \<Rightarrow> 'v ValidationError" where
  "missingError expected actual missingIncidents =
     (let uris = filter (\<lambda>u. u \<noteq> []) (map URI missingIncidents);
          n = Itoa (int (length missingIncidents));
          message = ''Missing '' @ n @ '' incident(s)'' @
            (if length uris > 0 then '' for files: '' @ JoinStrings uris '', '' else [])
      in \<lparr>Path = [], Message = message,
          Expected = AString (Itoa (int (length (elems (Incidents expected)))) @ '' incidents''),
          Actual = AString (Itoa (int (length (elems (Incidents actual)))) @
                     '' incidents (missing '' @ n @ '')'')\<rparr>)"

definition kantra_compareViolation ::
  "'v library \<Rightarrow> kantra \<Rightarrow> 'v Violation \<Rightarrow> 'v Violation
     \<Rightarrow> panic + ('v ValidationError list \<times> bool)" where
  "kantra_compareViolation L k expected actual =
     (let validationError = categoryErrors expected actual @ effortErrors expected actual @
            linkErrors expected actual @ labelErrors expected actual
      in case kantra_missingIncidents L k (elems (Incidents expected)) (elems (Incidents actual)) of
           Inl p \<Rightarrow> Inl p
         | Inr missingIncidents \<Rightarrow>
             (let validationError' =
                    (if length missingIncidents > 0
                     then validationError @ [missingError expected actual missingIncidents]
                     else validationError)
              in Inr (validationError', length validationError' \<noteq> 0)))"

subsection \<open>The comparer of the remote service (tackle2\_hub\_validator.go)\<close>

text \<open>
  \<open>tackle2Hub\<close> embeds a \<open>kantra\<close> and overrides \<open>compareViolation\<close> only. Its incident
  loop has no test of the code snippet and no special case for an empty URI.
\<close>

definition tackle2Hub_incidentBody ::
  "'v library \<Rightarrow> kantra \<Rightarrow> 'v Incident \<Rightarrow> 'v Incident \<Rightarrow> loopAction" where
  "tackle2Hub_incidentBody L k i ai = pathStep L k i ai"

fun tackle2Hub_incidentErrors ::
  "'v library \<Rightarrow> kantra \<Rightarrow> 'v Violation \<Rightarrow> 'v Incident list \<Rightarrow> 'v Incident list
     \<Rightarrow> panic + 'v ValidationError list" where
  "tackle2Hub_incidentErrors L k expected [] actual = Inr []"
| "tackle2Hub_incidentErrors L k expected (i # is) actual =
     (case findIncident (tackle2Hub_incidentBody L k i) actual False of
        Inl p \<Rightarrow> Inl p
      | Inr found \<Rightarrow>
         (case tackle2Hub_incidentErrors L k expected is actual of
            Inl p \<Rightarrow> Inl p
          | Inr errs \<Rightarrow>
              Inr (if found then errs
                   else \<lparr>Path = [],
                         Message = ''Did not find expected incident: '' @ fmtIncident L i,
                         Expected = AViolation expected, Actual = ANil\<rparr> # errs)))"

definition tackle2Hub_compareViolation ::
  "'v library \<Rightarrow> kantra \<Rightarrow> 'v Violation \<Rightarrow> 'v Violation
     \<Rightarrow> panic + ('v ValidationError list \<times> bool)" where
  "tackle2Hub_compareViolation L t expected actual =
     (let validationError = categoryErrors expected actual @ effortErrors expected actual @
            linkErrors expected actual @ labelErrors expected actual
      in case tackle2Hub_incidentErrors L t expected
                (elems (Incidents expected)) (elems (Incidents actual)) of
           Inl p \<Rightarrow> Inl p
         | Inr errs \<Rightarrow>
             (let validationError' = validationError @ errs
              in Inr (validationError', length validationError' \<noteq> 0)))"

subsection \<open>Choosing a comparer, and the validation loop (validator.go)\<close>

datatype comparer = KantraComparer kantra | Tackle2HubComparer kantra

text \<open>\<open>None\<close> is the nil interface value that \<open>getComparer\<close> returns after its switch.\<close>

definition getComparer :: "string \<Rightarrow> string \<Rightarrow> comparer option" where
  "getComparer targetType dir =
     (let k = \<lparr>testDir = dir\<rparr> in
      if targetType = ''kantra'' then Some (KantraComparer k)
      else if targetType = ''tackle-hub'' then Some (Tackle2HubComparer k)
      else if targetType = ''tackle-ui'' then Some (KantraComparer k)
      else if targetType = ''kai-rpc'' then Some (KantraComparer k)
      else if targetType = ''vscode'' then Some (KantraComparer k)
      else None)"

text \<open>
  Method calls through the interface. The methods that \<open>tackle2Hub\<close> does not define are
  those of the \<open>kantra\<close> it embeds.
\<close>

fun compareTag :: "comparer \<Rightarrow> string \<Rightarrow> string slice \<Rightarrow> 'v ValidationError option \<times> bool" where
  "compareTag (KantraComparer k) = kantra_compareTag k"
| "compareTag (Tackle2HubComparer k) = kantra_compareTag k"

fun compareErrors :: "comparer \<Rightarrow> string \<Rightarrow> string \<Rightarrow> 'v ValidationError option \<times> bool" where
  "compareErrors (KantraComparer k) = kantra_compareErrors k"
| "compareErrors (Tackle2HubComparer k) = kantra_compareErrors k"

fun compareUnmatched :: "comparer \<Rightarrow> string \<Rightarrow> string slice \<Rightarrow> 'v ValidationError option \<times> bool" where
  "compareUnmatched (KantraComparer k) = kantra_compareUnmatched k"
| "compareUnmatched (Tackle2HubComparer k) = kantra_compareUnmatched k"

fun compareSkipped :: "comparer \<Rightarrow> string \<Rightarrow> string slice \<Rightarrow> 'v ValidationError option \<times> bool" where
  "compareSkipped (KantraComparer k) = kantra_compareSkipped k"
| "compareSkipped (Tackle2HubComparer k) = kantra_compareSkipped k"

fun compareViolation ::
  "'v library \<Rightarrow> comparer \<Rightarrow> 'v Violation \<Rightarrow> 'v Violation
     \<Rightarrow> panic + ('v ValidationError list \<times> bool)" where
  "compareViolation L (KantraComparer k) = kantra_compareViolation L k"
| "compareViolation L (Tackle2HubComparer k) = tackle2Hub_compareViolation L k"

text \<open>A loop whose body may panic: the panic ends the loop and the function.\<close>

fun forEach :: "'a list \<Rightarrow> ('a \<Rightarrow> 's \<Rightarrow> panic + 's) \<Rightarrow> 's \<Rightarrow> panic + 's" where
  "forEach [] body s = Inr s"
| "forEach (x # xs) body s =
     (case body x s of Inl p \<Rightarrow> Inl p | Inr s' \<Rightarrow> forEach xs body s')"

text \<open>
  \<open>errors = append(errors, *err)\<close> after a call that returned \<open>(err, ok)\<close> with \<open>ok\<close>
  true; a call on the nil comparer panics.
\<close>

definition appendIfOk ::
  "'v ValidationError option \<times> bool \<Rightarrow> 'v ValidationError list \<Rightarrow> panic + 'v ValidationError list" where
  "appendIfOk r errors =
     (case r of
        (err, ok) \<Rightarrow>
          if ok then (case err of None \<Rightarrow> Inl NilDereference | Some e \<Rightarrow> Inr (errors @ [e]))
          else Inr errors)"

definition callStrings ::
  "comparer option \<Rightarrow> (comparer \<Rightarrow> string \<Rightarrow> 'b \<Rightarrow> 'v ValidationError option \<times> bool)
     \<Rightarrow> string \<Rightarrow> 'b \<Rightarrow> 'v ValidationError list \<Rightarrow> panic + 'v ValidationError list" where
  "callStrings c method expected actual errors =
     (case c of
        None \<Rightarrow> Inl NilDereference
      | Some cmp \<Rightarrow> appendIfOk (method cmp expected actual) errors)"

definition callViolation ::
  "'v library \<Rightarrow> comparer option \<Rightarrow> string \<Rightarrow> 'v Violation \<Rightarrow> 'v Violation
     \<Rightarrow> 'v ValidationError list \<Rightarrow> panic + 'v ValidationError list" where
  "callViolation L c header expected actual errors =
     (case c of
        None \<Rightarrow> Inl NilDereference
      | Some cmp \<Rightarrow>
         (case compareViolation L cmp expected actual of
            Inl p \<Rightarrow> Inl p
          | Inr (err, ok) \<Rightarrow>
              if ok then
                (let newMessage =
                       foldl (\<lambda>m e. m @ [CHR 0x0A, CHR 0x09] @ Message e)
                         (header @ [CHR 0x0A, CHR 0x09]) err
                 in Inr (errors @ [\<lparr>Path = [], Message = newMessage,
                                     Expected = AViolation expected, Actual = ANil\<rparr>]))
              else Inr errors))"

definition lookupViolation :: "(string, 'v Violation) gomap \<Rightarrow> string \<Rightarrow> 'v Violation" where
  "lookupViolation m k = (case index m k of None \<Rightarrow> zeroViolation | Some v \<Rightarrow> v)"

definition lookupString :: "(string, string) gomap \<Rightarrow> string \<Rightarrow> string" where
  "lookupString m k = (case index m k of None \<Rightarrow> [] | Some v \<Rightarrow> v)"

text \<open>
  The body of the inner loop for an actual ruleset \<open>rs\<close> that has the name of the
  expected ruleset \<open>ers\<close>: six fields, each compared through the comparer only when the
  plain equality test on it fails.
\<close>

definition checkErrors ::
  "comparer option \<Rightarrow> 'v RuleSet \<Rightarrow> 'v RuleSet \<Rightarrow> 'v ValidationError list
     \<Rightarrow> panic + 'v ValidationError list" where
  "checkErrors c ers rs errors =
     (if \<not> mapsEqual (Errors_rs ers) (Errors_rs rs)
      then forEach (elems (Errors_rs ers))
             (\<lambda>(k, eerr). callStrings c compareErrors eerr (lookupString (Errors_rs rs) k)) errors
      else Inr errors)"

definition checkTags ::
  "comparer option \<Rightarrow> 'v RuleSet \<Rightarrow> 'v RuleSet \<Rightarrow> 'v ValidationError list
     \<Rightarrow> panic + 'v ValidationError list" where
  "checkTags c ers rs errors =
     (if \<not> deepEqualSlice (=) (Tags rs) (Tags ers)
      then forEach (elems (Tags ers)) (\<lambda>erstags. callStrings c compareTag erstags (Tags rs)) errors
      else Inr errors)"

definition checkInsights ::
  "'v library \<Rightarrow> comparer option \<Rightarrow> 'v RuleSet \<Rightarrow> 'v RuleSet
     \<Rightarrow> 'v ValidationError list \<Rightarrow> panic + 'v ValidationError list" where
  "checkInsights L c ers rs errors =
     (if \<not> deepEqualMap deepEqualViolation (Insights rs) (Insights ers)
      then forEach (elems (Insights ers))
             (\<lambda>(k, ersinsights).
                callViolation L c ''Did not find Insights'' ersinsights
                  (lookupViolation (Insights rs) k)) errors
      else Inr errors)"

definition checkViolations ::
  "'v library \<Rightarrow> comparer option \<Rightarrow> 'v RuleSet \<Rightarrow> 'v RuleSet
     \<Rightarrow> 'v ValidationError list \<Rightarrow> panic + 'v ValidationError list" where
  "checkViolations L c ers rs errors =
     (if \<not> deepEqualMap deepEqualViolation (Violations rs) (Violations ers)
      then forEach (elems (Violations ers))
             (\<lambda>(k, ersinsights).
                callViolation L c ''Did not find violations'' ersinsights
                  (lookupViolation (Violations rs) k)) errors
      else Inr errors)"

definition checkUnmatched ::
  "comparer option \<Rightarrow> 'v RuleSet \<Rightarrow> 'v RuleSet \<Rightarrow> 'v ValidationError list
     \<Rightarrow> panic + 'v ValidationError list" where
  "checkUnmatched c ers rs errors =
     (if \<not> deepEqualSlice (=) (Unmatched rs) (Unmatched ers)
      then forEach (elems (Unmatched ers))
             (\<lambda>ersunmatched. callStrings c compareUnmatched ersunmatched (Unmatched rs)) errors
      else Inr errors)"

definition checkSkipped ::
  "comparer option \<Rightarrow> 'v RuleSet \<Rightarrow> 'v RuleSet \<Rightarrow> 'v ValidationError list
     \<Rightarrow> panic + 'v ValidationError list" where
  "checkSkipped c ers rs errors =
     (if \<not> deepEqualSlice (=) (Skipped rs) (Skipped ers)
      then forEach (elems (Skipped ers))
             (\<lambda>ersskipped. callStrings c compareSkipped ersskipped (Skipped rs)) errors
      else Inr errors)"

definition andThen :: "panic + 'a \<Rightarrow> ('a \<Rightarrow> panic + 'b) \<Rightarrow> panic + 'b" where
  "andThen r f = (case r of Inl p \<Rightarrow> Inl p | Inr x \<Rightarrow> f x)"

definition compareRuleSet ::
  "'v library \<Rightarrow> comparer option \<Rightarrow> 'v RuleSet \<Rightarrow> 'v RuleSet
     \<Rightarrow> 'v ValidationError list \<Rightarrow> panic + 'v ValidationError list" where
  "compareRuleSet L c ers rs errors =
     (if Name rs \<noteq> Name ers then Inr errors
      else andThen (checkErrors c ers rs errors) (\<lambda>e1.
           andThen (checkTags c ers rs e1) (\<lambda>e2.
           andThen (checkInsights L c ers rs e2) (\<lambda>e3.
           andThen (checkViolations L c ers rs e3) (\<lambda>e4.
           andThen (checkUnmatched c ers rs e4) (\<lambda>e5.
           checkSkipped c ers rs e5))))))"

text \<open>
  The body of the outer loop: every actual ruleset is tried, then the error with the
  path \<open>ruleset/<name>\<close> is appended.
\<close>

definition rulesetError :: "'v RuleSet \<Rightarrow> 'v ValidationError" where
  "rulesetError ers = \<lparr>Path = ''ruleset/'' @ Name ers, Message = [], Expected = ANil, Actual = ANil\<rparr>"

definition validateExpected ::
  "'v library \<Rightarrow> comparer option \<Rightarrow> 'v RuleSet list \<Rightarrow> 'v RuleSet
     \<Rightarrow> 'v ValidationError list \<Rightarrow> panic + 'v ValidationError list" where
  "validateExpected L c actual ers errors =
     andThen (forEach actual (compareRuleSet L c ers) errors)
       (\<lambda>errors'. Inr (errors' @ [rulesetError ers]))"

text \<open>
  \<open>ValidateFiles\<close> returns a result and an error that is always nil; the error is left
  out. \<open>Inl\<close> is a panic, which ends the call without a result.
\<close>

definition ValidateFiles ::
  "'v library \<Rightarrow> string \<Rightarrow> string \<Rightarrow> 'v RuleSet list \<Rightarrow> 'v RuleSet list
     \<Rightarrow> panic + 'v ValidationResult" where
  "ValidateFiles L dir targetType actual expected =
     (let c = getComparer targetType dir in
      andThen (forEach expected (validateExpected L c actual) [])
        (\<lambda>errors. Inr \<lparr>Passed = (length errors = 0), Errors = errors\<rparr>))"

definition Validate ::
  "'v library \<Rightarrow> 'v RuleSet list \<Rightarrow> 'v RuleSet list \<Rightarrow> panic + 'v ValidationResult" where
  "Validate L actual expected = ValidateFiles L [] [] actual expected"

text \<open>
  The pairs of an expected and an actual ruleset on which the loop body calls a method
  of the comparer: one of the six fields fails its equality test, and the expected side
  of that field has an element for the loop to visit.
\<close>

definition usesComparer :: "'v RuleSet \<Rightarrow> 'v RuleSet \<Rightarrow> bool" where
  "usesComparer ers rs =
     ((\<not> mapsEqual (Errors_rs ers) (Errors_rs rs) \<and> elems (Errors_rs ers) \<noteq> []) \<or>
      (\<not> deepEqualSlice (=) (Tags rs) (Tags ers) \<and> elems (Tags ers) \<noteq> []) \<or>
      (\<not> deepEqualMap deepEqualViolation (Insights rs) (Insights ers) \<and>
         elems (Insights ers) \<noteq> []) \<or>
      (\<not> deepEqualMap deepEqualViolation (Violations rs) (Violations ers) \<and>
         elems (Violations ers) \<noteq> []) \<or>
      (\<not> deepEqualSlice (=) (Unmatched rs) (Unmatched ers) \<and> elems (Unmatched ers) \<noteq> []) \<or>
      (\<not> deepEqualSlice (=) (Skipped rs) (Skipped ers) \<and> elems (Skipped ers) \<noteq> []))"

section \<open>The CLI target (pkg/targets/kantra.go, util.go)\<close>

subsection \<open>Classifying the application reference\<close>

text \<open>
  \<open>filepath.Ext\<close> reads the path from its end up to the last separator and returns the
  text from the last dot on. \<open>extFrom\<close> walks the reversed path and keeps what it has
  passed.
\<close>

fun extFrom :: "string \<Rightarrow> string \<Rightarrow> string" where
  "extFrom [] passed = []"
| "extFrom (c # cs) passed =
     (if c = CHR ''/'' then []
      else if c = CHR ''.'' then c # passed
      else extFrom cs (c # passed))"

definition Ext :: "string \<Rightarrow> string" where
  "Ext path = extFrom (rev path) []"

text \<open>
  \<open>strings.ToLower\<close> on the ASCII letters. No other character has a lower-case form
  among the letters of \<open>.jar\<close>, \<open>.war\<close> and \<open>.ear\<close>, so the comparison in \<open>IsBinaryFile\<close>
  is not affected by the bytes this leaves alone.
\<close>

definition lowerByte :: "char \<Rightarrow> char" where
  "lowerByte c =
     (let n = (of_char c :: nat) in if 65 \<le> n \<and> n \<le> 90 then char_of (n + 32) else c)"

definition ToLower :: "string \<Rightarrow> string" where
  "ToLower s = map lowerByte s"

definition IsBinaryFile :: "string \<Rightarrow> bool" where
  "IsBinaryFile path =
     (let ext = ToLower (Ext path) in ext = ''.jar'' \<or> ext = ''.war'' \<or> ext = ''.ear'')"

text \<open>\<open>strings.SplitN(s, sep, 2)\<close>: cut at the first occurrence of \<open>sep\<close>, if there is one.\<close>

fun cutFrom :: "string \<Rightarrow> string \<Rightarrow> string \<Rightarrow> string list" where
  "cutFrom sep cur [] = [cur]"
| "cutFrom sep cur (c # cs) =
     (if sep \<noteq> [] \<and> prefix sep (c # cs) then [cur, drop (length sep) (c # cs)]
      else cutFrom sep (cur @ [c]) cs)"

definition SplitN2 :: "string \<Rightarrow> string \<Rightarrow> string list" where
  "SplitN2 s sep = cutFrom sep [] s"

definition isGitURL :: "string \<Rightarrow> bool" where
  "isGitURL application =
     (HasPrefix application ''http://'' \<or> HasPrefix application ''https://'' \<or>
      HasPrefix application ''git@'')"

text \<open>The values of \<open>gitURL\<close>, \<open>gitRef\<close> and \<open>gitPath\<close> after the parsing step of \<open>prepareInput\<close>.\<close>

definition parseGitReference :: "string \<Rightarrow> string \<times> string \<times> string" where
  "parseGitReference application =
     (if Contains application ''#'' then
        (let parts = SplitN2 application ''#''; gitURL = parts ! 0 in
         if length parts > 1 then
           (let refParts = SplitN2 (parts ! 1) ''/''; gitRef = refParts ! 0 in
            if length refParts > 1 then (gitURL, gitRef, refParts ! 1)
            else (gitURL, gitRef, []))
         else (gitURL, [], []))
      else (application, [], []))"

text \<open>
  \<open>prepareInput\<close> first decides what the application reference is, and only then
  touches the file system or runs git. The model is that decision: the branch taken and
  the values it goes on with. \<open>PrepareBinary\<close> is the call of \<open>prepareBinary\<close>,
  \<open>ReturnPath\<close> the return of a path as it is, and \<open>CloneRepository\<close> the clone of
  \<open>gitURL\<close> at \<open>gitRef\<close>, with \<open>gitPath\<close> the directory used inside the clone.
\<close>

datatype inputPlan =
    PrepareBinary string
  | ReturnPath string
  | CloneRepository string string string

definition prepareInput :: "string \<Rightarrow> inputPlan" where
  "prepareInput application =
     (if IsBinaryFile application then PrepareBinary application
      else if \<not> isGitURL application then
        (if HasPrefix application ''binary:'' then ReturnPath (drop 7 application)
         else ReturnPath application)
      else (case parseGitReference application of
              (gitURL, gitRef, gitPath) \<Rightarrow> CloneRepository gitURL gitRef gitPath))"

subsection \<open>Building the arguments\<close>

text \<open>
  The analysis configuration of a test (package \<open>config\<close>) with the fields \<open>buildArgs\<close>
  reads, and the two analysis modes of the analyzer's package \<open>provider\<close>, which are
  strings.
\<close>

record AnalysisConfig =
  ContextLines :: int
  LabelSelector :: string
  IncidentSelector :: string
  Target :: "string list"
  Source :: "string list"
  Rules :: "string list"
  AnalysisMode :: string

definition SourceOnlyAnalysisMode :: string where
  "SourceOnlyAnalysisMode = ''source-only''"

definition FullAnalysisMode :: string where
  "FullAnalysisMode = ''full''"

record KantraTarget =
  binaryPath :: string
  mavenSettings :: string

definition buildArgs ::
  "KantraTarget \<Rightarrow> AnalysisConfig \<Rightarrow> string \<Rightarrow> string \<Rightarrow> string \<Rightarrow> string list" where
  "buildArgs k analysis inputPath outputDir settings =
     [''analyze'', ''--context-lines'', Itoa (ContextLines analysis)] @
     [''--input'', inputPath] @
     [''--output'', outputDir] @
     (if LabelSelector analysis \<noteq> [] then [''--label-selector'', LabelSelector analysis] else []) @
     (if IncidentSelector analysis \<noteq> []
      then [''--incident-selector'', IncidentSelector analysis] else []) @
     (if settings \<noteq> [] then [''--maven-settings'', settings] else []) @
     (if length (Target analysis) > 0
      then concat (map (\<lambda>target. [''-t'', target]) (Target analysis)) else []) @
     (if length (Source analysis) > 0
      then concat (map (\<lambda>source. [''-s'', source]) (Source analysis)) else []) @
     (if length (Rules analysis) > 0
      then concat (map (\<lambda>rule. [''--rules'', rule]) (Rules analysis)) else []) @
     (if AnalysisMode analysis = SourceOnlyAnalysisMode then [''--mode'', ''source-only'']
      else if AnalysisMode analysis = FullAnalysisMode then [''--mode'', ''full'']
      else []) @
     [''--run-local=false''] @
     [''--overwrite'']"

section \<open>Values for the examples\<close>

text \<open>The zero values of the result types: what Go gives a value whose fields are not set.\<close>

definition zeroIncident :: "'v Incident" where
  "zeroIncident =
     \<lparr>URI = [], Message_inc = [], CodeSnip = [], LineNumber = None, Variables = None\<rparr>"

definition zeroRuleSet :: "'v RuleSet" where
  "zeroRuleSet =
     \<lparr>Name = [], Description_rs = [], Tags = None, Violations = None, Insights = None,
      Errors_rs = None, Unmatched = None, Skipped = None\<rparr>"

text \<open>
  The library functions on the arguments of the examples, which are file URIs and clean
  absolute paths. The file name of a URI \<open>file://<path>\<close> is the path, and \<open>Filename\<close>
  panics on a URI with another scheme. A directory joined with a name is the two with a
  separator between them. \<open>filepath.Rel\<close> of two clean absolute paths goes up from the
  base to the last directory the two have in common, one \<open>..\<close> for each element of the
  base below it, and then down to the target.
\<close>

fun dropCommon :: "string list \<Rightarrow> string list \<Rightarrow> string list \<times> string list" where
  "dropCommon (b # bs) (t # ts) = (if b = t then dropCommon bs ts else (b # bs, t # ts))"
| "dropCommon bs ts = (bs, ts)"

definition cleanRel :: "string \<Rightarrow> string \<Rightarrow> string option" where
  "cleanRel base targ =
     (if base = targ then Some ''.''
      else (case dropCommon (Split base ''/'') (Split targ ''/'') of
              (bs, ts) \<Rightarrow> Some (JoinStrings (replicate (length bs) ''..'' @ ts) ''/'')))"

definition exampleLibrary :: "unit library" where
  "exampleLibrary =
     \<lparr>Filename = (\<lambda>u. if prefix ''file://'' u then Some (drop 7 u) else None),
      Join = (\<lambda>dir name. dir @ ''/'' @ name),
      Rel = cleanRel,
      fmtIncident = (\<lambda>i. ''{'' @ URI i @ '' '' @ Message_inc i @ '' '' @ CodeSnip i @ '' '' @
                         fmtPtr (LineNumber i) @ '' map[]}'')\<rparr>"

text \<open>A violation with one link, a ruleset with a name and tags, and an incident.\<close>

definition linkedViolation :: "'v Violation" where
  "linkedViolation = zeroViolation\<lparr>Links := Some [\<lparr>URL = ''https://x'', Title = ''doc''\<rparr>]\<rparr>"

definition taggedRuleSet :: "string \<Rightarrow> string slice \<Rightarrow> 'v RuleSet" where
  "taggedRuleSet n tags = zeroRuleSet\<lparr>Name := n, Tags := tags\<rparr>"

definition incidentAt :: "string \<Rightarrow> string \<Rightarrow> 'v Incident" where
  "incidentAt uri snip = zeroIncident\<lparr>URI := uri, Message_inc := ''found'', CodeSnip := snip\<rparr>"

definition violationWith :: "'v Incident list \<Rightarrow> 'v Violation" where
  "violationWith incs = zeroViolation\<lparr>Incidents := Some incs\<rparr>"



definition violationRuleSet :: "string \<Rightarrow> 'v Violation \<Rightarrow> 'v RuleSet" where
  "violationRuleSet n v = zeroRuleSet\<lparr>Name := n, Violations := Some [(''rule1'', v)]\<rparr>"

text \<open>The analysis of the first test of \<open>buildArgs\<close>, and its target.\<close>

definition exampleAnalysis :: AnalysisConfig where
  "exampleAnalysis =
     \<lparr>ContextLines = 10, LabelSelector = [], IncidentSelector = [], Target = [], Source = [],
      Rules = [], AnalysisMode = SourceOnlyAnalysisMode\<rparr>"

definition exampleTarget :: KantraTarget where
  "exampleTarget = \<lparr>binaryPath = ''/usr/local/bin/kantra'', mavenSettings = []\<rparr>"

section \<open>Properties of the label selector parser\<close>

lemma addPart_keeps:
  assumes "Included labels \<noteq> None" "Excluded labels \<noteq> None"
    "[] \<notin> set (elems (Included labels))" "[] \<notin> set (elems (Excluded labels))"
    "\<forall>l\<in>set (elems (Included labels)). \<not> HasPrefix l ''!''"
  shows "Included (addPart labels part) \<noteq> None \<and> Excluded (addPart labels part) \<noteq> None \<and>
    [] \<notin> set (elems (Included (addPart labels part))) \<and>
    [] \<notin> set (elems (Excluded (addPart labels part))) \<and>
    (\<forall>l\<in>set (elems (Included (addPart labels part))). \<not> HasPrefix l ''!'')"
  using assms by (auto simp: addPart_def Let_def append1_def elems_def)

lemma foldl_addPart_keeps:
  assumes "Included labels \<noteq> None" "Excluded labels \<noteq> None"
    "[] \<notin> set (elems (Included labels))" "[] \<notin> set (elems (Excluded labels))"
    "\<forall>l\<in>set (elems (Included labels)). \<not> HasPrefix l ''!''"
  shows "Included (foldl addPart labels parts) \<noteq> None \<and>
    Excluded (foldl addPart labels parts) \<noteq> None \<and>
    [] \<notin> set (elems (Included (foldl addPart labels parts))) \<and>
    [] \<notin> set (elems (Excluded (foldl addPart labels parts))) \<and>
    (\<forall>l\<in>set (elems (Included (foldl addPart labels parts))). \<not> HasPrefix l ''!'')"
  using assms
proof (induction parts arbitrary: labels)
  case Nil
  then show ?case by simp
next
  case (Cons part parts)
  have "Included (foldl addPart (addPart labels part) parts) \<noteq> None \<and>
    Excluded (foldl addPart (addPart labels part) parts) \<noteq> None \<and>
    [] \<notin> set (elems (Included (foldl addPart (addPart labels part) parts))) \<and>
    [] \<notin> set (elems (Excluded (foldl addPart (addPart labels part) parts))) \<and>
    (\<forall>l\<in>set (elems (Included (foldl addPart (addPart labels part) parts))). \<not> HasPrefix l ''!'')"
    using addPart_keeps [OF Cons.prems, of part] by (intro Cons.IH) auto
  then show ?case by simp
qed

lemma ParseLabelSelector_both:
  "ParseLabelSelector ''a||!a'' = \<lparr>Included = Some [''a''], Excluded = Some [''a'']\<rparr>"
  by code_simp

lemma ParseLabelSelector_mixed:
  "ParseLabelSelector ''a=1 || !b=2'' = \<lparr>Included = Some [''a=1''], Excluded = Some [''b=2'']\<rparr>"
  by code_simp

text \<open>
  C5, as stated: the included and the excluded labels of every selector are disjoint.
  This fails for the selector \<open>a||!a\<close>: the parser keeps no record of the labels it has
  seen, and \<open>a\<close> ends up on both sides.
\<close>

theorem ParseLabelSelector_disjoint_counterexample:
  "\<not> (set (elems (Included (ParseLabelSelector ''a||!a''))) \<inter>
      set (elems (Excluded (ParseLabelSelector ''a||!a''))) = {})"
  by (simp add: ParseLabelSelector_both elems_def)

text \<open>
  C5, amended: for every selector, neither collection holds an empty string, no included
  label begins with \<open>!\<close>, and both collections are non-nil; the empty selector gives two
  empty non-nil collections.
\<close>

theorem ParseLabelSelector_labels:
  "[] \<notin> set (elems (Included (ParseLabelSelector s))) \<and>
   [] \<notin> set (elems (Excluded (ParseLabelSelector s))) \<and>
   (\<forall>l\<in>set (elems (Included (ParseLabelSelector s))). \<not> HasPrefix l ''!'') \<and>
   Included (ParseLabelSelector s) \<noteq> None \<and> Excluded (ParseLabelSelector s) \<noteq> None \<and>
   ParseLabelSelector [] = \<lparr>Included = Some [], Excluded = Some []\<rparr>"
proof -
  let ?l0 = "\<lparr>Included = Some [], Excluded = Some []\<rparr>"
  have "Included (foldl addPart ?l0 ps) \<noteq> None \<and> Excluded (foldl addPart ?l0 ps) \<noteq> None \<and>
    [] \<notin> set (elems (Included (foldl addPart ?l0 ps))) \<and>
    [] \<notin> set (elems (Excluded (foldl addPart ?l0 ps))) \<and>
    (\<forall>l\<in>set (elems (Included (foldl addPart ?l0 ps))). \<not> HasPrefix l ''!'')" for ps
    by (rule foldl_addPart_keeps) (simp_all add: elems_def)
  from this [of "Split s ''||''"] show ?thesis
    by (auto simp: ParseLabelSelector_def Let_def elems_def)
qed

text \<open>
  C5, an instance: the selector \<open>a=1 || !b=2\<close> has the included label \<open>a=1\<close>, which is
  not empty and does not begin with \<open>!\<close>, and the excluded label \<open>b=2\<close>.
\<close>

theorem ParseLabelSelector_labels_witness:
  "''a=1'' \<in> set (elems (Included (ParseLabelSelector ''a=1 || !b=2''))) \<and>
   ''b=2'' \<in> set (elems (Excluded (ParseLabelSelector ''a=1 || !b=2''))) \<and>
   \<not> HasPrefix ''a=1'' ''!'' \<and>
   [] \<notin> set (elems (Included (ParseLabelSelector ''a=1 || !b=2''))) \<and>
   [] \<notin> set (elems (Excluded (ParseLabelSelector ''a=1 || !b=2'')))"
  using ParseLabelSelector_labels [of "''a=1 || !b=2''"]
  by (simp add: ParseLabelSelector_mixed elems_def)

section \<open>Properties of the input classification\<close>

lemma Contains_single: "Contains s [c] \<longleftrightarrow> c \<in> set s"
  by (induction s) auto

lemma cutFrom_single:
  "cutFrom [c] cur s =
     (if c \<in> set s then [cur @ takeWhile (\<lambda>x. x \<noteq> c) s, tl (dropWhile (\<lambda>x. x \<noteq> c) s)]
      else [cur @ s])"
  by (induction s arbitrary: cur) auto

lemma takeWhile_upto: "c \<notin> set u \<Longrightarrow> takeWhile (\<lambda>x. x \<noteq> c) (u @ c # rest) = u"
  by (induction u) auto

lemma dropWhile_upto: "c \<notin> set u \<Longrightarrow> dropWhile (\<lambda>x. x \<noteq> c) (u @ c # rest) = c # rest"
  by (induction u) auto

lemma takeWhile_all: "c \<notin> set r \<Longrightarrow> takeWhile (\<lambda>x. x \<noteq> c) r = r"
  by (induction r) auto

text \<open>
  \<open>SplitN\<close> gives at least one piece, so the reads of \<open>parts[0]\<close> and \<open>refParts[0]\<close>
  are in range; the reads at index 1 are guarded by the length, as in the source.
\<close>

lemma SplitN2_pieces: "SplitN2 s sep \<noteq> [] \<and> length (SplitN2 s sep) \<le> 2"
proof -
  have "cutFrom sep cur s \<noteq> [] \<and> length (cutFrom sep cur s) \<le> 2" for cur
    by (induction s arbitrary: cur) auto
  then show ?thesis by (simp add: SplitN2_def)
qed

lemma parseGitReference_no_hash:
  "CHR ''#'' \<notin> set a \<Longrightarrow> parseGitReference a = (a, [], [])"
  by (simp add: parseGitReference_def Contains_single)

lemma parseGitReference_hash:
  assumes "CHR ''#'' \<notin> set u"
  shows "parseGitReference (u @ ''#'' @ rest) =
    (u, takeWhile (\<lambda>x. x \<noteq> CHR ''/'') rest,
     if CHR ''/'' \<in> set rest then tl (dropWhile (\<lambda>x. x \<noteq> CHR ''/'') rest) else [])"
  using assms
  by (simp add: parseGitReference_def Contains_single SplitN2_def cutFrom_single Let_def
      takeWhile_upto dropWhile_upto takeWhile_all)

lemma parseGitReference_ref_path:
  assumes "CHR ''#'' \<notin> set u" "CHR ''/'' \<notin> set r"
  shows "parseGitReference (u @ ''#'' @ r @ ''/'' @ p) = (u, r, p)"
  using assms parseGitReference_hash [of u "r @ ''/'' @ p"]
  by (simp add: takeWhile_upto dropWhile_upto)

lemma parseGitReference_ref_only:
  assumes "CHR ''#'' \<notin> set u" "CHR ''/'' \<notin> set r"
  shows "parseGitReference (u @ ''#'' @ r) = (u, r, [])"
  using assms parseGitReference_hash [of u r] by (simp add: takeWhile_all)

text \<open>
  C6, as stated: a reference of the form \<open>user@host:\<close> is a git reference, so that
  \<open>deploy@example.com:repo.git\<close> is cloned. The code returns it as a local path: the
  only form with a user that it takes as a git reference begins with \<open>git@\<close>.
\<close>

theorem prepareInput_ssh_user_counterexample:
  "prepareInput ''deploy@example.com:repo.git'' = ReturnPath ''deploy@example.com:repo.git''"
  by code_simp

text \<open>
  C6, amended: an application reference is taken as a git reference exactly when it is
  not a binary artifact (by its extension) and begins with \<open>http://\<close>, \<open>https://\<close> or
  \<open>git@\<close>.
\<close>

theorem prepareInput_git_iff:
  "(\<exists>u r p. prepareInput a = CloneRepository u r p) \<longleftrightarrow>
   (\<not> IsBinaryFile a \<and>
    (HasPrefix a ''http://'' \<or> HasPrefix a ''https://'' \<or> HasPrefix a ''git@''))"
  by (auto simp: prepareInput_def isGitURL_def split: prod.splits)

text \<open>
  C6, an instance: \<open>git@github.com:konveyor/tackle-testapp.git\<close> is not a binary
  artifact and begins with \<open>git@\<close>; it is cloned.
\<close>

theorem prepareInput_git_iff_witness:
  "\<not> IsBinaryFile ''git@github.com:konveyor/tackle-testapp.git'' \<and>
   HasPrefix ''git@github.com:konveyor/tackle-testapp.git'' ''git@'' \<and>
   (\<exists>u r p. prepareInput ''git@github.com:konveyor/tackle-testapp.git'' = CloneRepository u r p)"
proof -
  have b: "\<not> IsBinaryFile ''git@github.com:konveyor/tackle-testapp.git''"
    by code_simp
  have h: "HasPrefix ''git@github.com:konveyor/tackle-testapp.git'' ''git@''"
    by (simp add: HasPrefix_def)
  from b h prepareInput_git_iff [of "''git@github.com:konveyor/tackle-testapp.git''"]
  show ?thesis by blast
qed

text \<open>
  C10: the parsing of a git reference cuts it at the first \<open>#\<close> into the URL and a rest,
  and the rest at its first \<open>/\<close> into the ref and the subpath. So
  \<open>https://h/r.git#main/sub/dir\<close> gives the URL \<open>https://h/r.git\<close>, the ref \<open>main\<close> and
  the subpath \<open>sub/dir\<close>, and a reference without \<open>#\<close> gives an empty ref and an empty
  subpath.
\<close>

theorem parseGitReference_splits:
  "(CHR ''#'' \<notin> set u \<and> CHR ''/'' \<notin> set r \<longrightarrow>
      parseGitReference (u @ ''#'' @ r @ ''/'' @ p) = (u, r, p) \<and>
      parseGitReference (u @ ''#'' @ r) = (u, r, [])) \<and>
   (CHR ''#'' \<notin> set a \<longrightarrow> parseGitReference a = (a, [], [])) \<and>
   parseGitReference ''https://h/r.git#main/sub/dir'' = (''https://h/r.git'', ''main'', ''sub/dir'') \<and>
   prepareInput ''https://h/r.git#main/sub/dir'' =
     CloneRepository ''https://h/r.git'' ''main'' ''sub/dir'' \<and>
   prepareInput ''https://h/r.git'' = CloneRepository ''https://h/r.git'' [] []"
proof -
  have e1: "parseGitReference ''https://h/r.git#main/sub/dir'' =
      (''https://h/r.git'', ''main'', ''sub/dir'')"
    by code_simp
  have e2: "prepareInput ''https://h/r.git#main/sub/dir'' =
      CloneRepository ''https://h/r.git'' ''main'' ''sub/dir''"
    by code_simp
  have e3: "prepareInput ''https://h/r.git'' = CloneRepository ''https://h/r.git'' [] []"
    by code_simp
  show ?thesis
    using e1 e2 e3 parseGitReference_ref_path [of u r p] parseGitReference_ref_only [of u r]
      parseGitReference_no_hash [of a]
    by blast
qed

text \<open>
  C10, an instance: in \<open>git@h:r.git#v1/app\<close> the URL \<open>git@h:r.git\<close> has no \<open>#\<close> and the
  ref \<open>v1\<close> has no \<open>/\<close>; the parts are the URL, \<open>v1\<close> and \<open>app\<close>. \<open>/local/path\<close> has no
  \<open>#\<close> and is returned whole.
\<close>

theorem parseGitReference_splits_witness:
  "CHR ''#'' \<notin> set ''git@h:r.git'' \<and> CHR ''/'' \<notin> set ''v1'' \<and>
   parseGitReference ''git@h:r.git#v1/app'' = (''git@h:r.git'', ''v1'', ''app'') \<and>
   parseGitReference ''git@h:r.git#v1'' = (''git@h:r.git'', ''v1'', []) \<and>
   CHR ''#'' \<notin> set ''/local/path'' \<and>
   parseGitReference ''/local/path'' = (''/local/path'', [], [])"
  using parseGitReference_splits [of "''git@h:r.git''" "''v1''" "''app''" "''/local/path''"]
  by simp

section \<open>Properties of the argument builder\<close>

lemma flagged_no_empty_head:
  assumes "f \<noteq> []" "\<not> prefix [[]] rest"
  shows "\<not> prefix [[]] (concat (map (\<lambda>t. [f, t]) ts) @ rest)"
  using assms by (cases ts) auto

lemma flagged_no_pair:
  assumes "f \<noteq> []" "f \<noteq> x" "\<not> prefix [[]] rest"
  shows "sublist [x, []] (concat (map (\<lambda>t. [f, t]) ts) @ rest) \<longleftrightarrow> sublist [x, []] rest"
proof (induction ts)
  case Nil
  show ?case by simp
next
  case (Cons t ts)
  have "\<not> prefix [[]] (concat (map (\<lambda>t. [f, t]) ts) @ rest)"
    using assms by (intro flagged_no_empty_head) auto
  then have "\<not> prefix [x, []] (t # concat (map (\<lambda>t. [f, t]) ts) @ rest)"
    by (cases "concat (map (\<lambda>t. [f, t]) ts) @ rest") auto
  with Cons assms show ?case
    by (auto simp: sublist_Cons_right)
qed

lemma guarded_concat: "(if length ts > 0 then concat (map g ts) else []) = concat (map g ts)"
  by simp

lemma buildArgs_no_settings:
  "\<not> sublist [''--maven-settings'', []] (buildArgs k a i out [])"
  unfolding buildArgs_def guarded_concat
  by (simp add: sublist_Cons_right flagged_no_pair flagged_no_empty_head
      SourceOnlyAnalysisMode_def FullAnalysisMode_def)

lemma buildArgs_settings:
  assumes "m \<noteq> []"
  shows "sublist [''--maven-settings'', m] (buildArgs k a i out m)"
proof -
  have "buildArgs k a i out m =
    ([''analyze'', ''--context-lines'', Itoa (ContextLines a), ''--input'', i, ''--output'', out] @
     (if LabelSelector a \<noteq> [] then [''--label-selector'', LabelSelector a] else []) @
     (if IncidentSelector a \<noteq> [] then [''--incident-selector'', IncidentSelector a] else [])) @
    [''--maven-settings'', m] @
    (concat (map (\<lambda>target. [''-t'', target]) (Target a)) @
     concat (map (\<lambda>source. [''-s'', source]) (Source a)) @
     concat (map (\<lambda>rule. [''--rules'', rule]) (Rules a)) @
     (if AnalysisMode a = SourceOnlyAnalysisMode then [''--mode'', ''source-only'']
      else if AnalysisMode a = FullAnalysisMode then [''--mode'', ''full''] else []) @
     [''--run-local=false'', ''--overwrite''])"
    using assms unfolding buildArgs_def guarded_concat by simp
  then show ?thesis
    by (simp only: sublist_appendI)
qed

lemma buildArgs_mode:
  assumes "AnalysisMode a = SourceOnlyAnalysisMode"
  shows "sublist [''--mode'', ''source-only''] (buildArgs k a i out m)"
proof -
  have "buildArgs k a i out m =
    ([''analyze'', ''--context-lines'', Itoa (ContextLines a), ''--input'', i, ''--output'', out] @
     (if LabelSelector a \<noteq> [] then [''--label-selector'', LabelSelector a] else []) @
     (if IncidentSelector a \<noteq> [] then [''--incident-selector'', IncidentSelector a] else []) @
     (if m \<noteq> [] then [''--maven-settings'', m] else []) @
     concat (map (\<lambda>target. [''-t'', target]) (Target a)) @
     concat (map (\<lambda>source. [''-s'', source]) (Source a)) @
     concat (map (\<lambda>rule. [''--rules'', rule]) (Rules a))) @
    [''--mode'', ''source-only''] @
    [''--run-local=false'', ''--overwrite'']"
    using assms unfolding buildArgs_def guarded_concat by simp
  then show ?thesis
    by (simp only: sublist_appendI)
qed

lemma buildArgs_receiver: "buildArgs k a i out m = buildArgs k' a i out m"
  by (simp add: buildArgs_def)

lemma buildArgs_example:
  "buildArgs exampleTarget exampleAnalysis ''/path/to/app'' ''/path/to/output''
     ''/path/to/settings.xml'' =
   [''analyze'', ''--context-lines'', ''10'', ''--input'', ''/path/to/app'',
    ''--output'', ''/path/to/output'', ''--maven-settings'', ''/path/to/settings.xml'',
    ''--mode'', ''source-only'', ''--run-local=false'', ''--overwrite'']"
  by code_simp

lemma digitOf_not_dash: "digitOf d \<noteq> CHR ''-''"
proof -
  have "''0123456789abcdef'' ! (d mod 16) \<in> set ''0123456789abcdef''"
    by (rule nth_mem) simp
  then show ?thesis by (auto simp: digitOf_def)
qed

lemma showBase_no_dash: "CHR ''-'' \<notin> set (showBase b n)"
proof (induction b n rule: showBase.induct)
  case (1 b n)
  show ?case
  proof (cases "n < b \<or> b < 2")
    case True
    then show ?thesis
      using digitOf_not_dash [of n] by (subst showBase.simps) auto
  next
    case False
    with "1" show ?thesis
      using digitOf_not_dash [of "n mod b"] by (subst showBase.simps) auto
  qed
qed

lemma Itoa_not_flag: "Itoa i \<noteq> ''--maven-settings''"
proof
  assume a: "Itoa i = ''--maven-settings''"
  show False
  proof (cases "i < 0")
    case True
    with a have "showBase 10 (nat (- i)) = ''-maven-settings''"
      by (simp add: Itoa_def)
    then have "CHR ''-'' \<in> set (showBase 10 (nat (- i)))" by simp
    then show False using showBase_no_dash by blast
  next
    case False
    with a have "showBase 10 (nat i) = ''--maven-settings''"
      by (simp add: Itoa_def)
    then have "CHR ''-'' \<in> set (showBase 10 (nat i))" by simp
    then show False using showBase_no_dash by blast
  qed
qed

lemma buildArgs_no_flag:
  assumes "''--maven-settings'' \<notin> {i, out, LabelSelector a, IncidentSelector a} \<union>
      set (Target a) \<union> set (Source a) \<union> set (Rules a)"
  shows "''--maven-settings'' \<notin> set (buildArgs k a i out [])"
  using assms Itoa_not_flag [of "ContextLines a"]
  unfolding buildArgs_def guarded_concat
  by (auto simp: SourceOnlyAnalysisMode_def FullAnalysisMode_def split: if_splits)

lemma buildArgs_flag:
  assumes "m \<noteq> []"
  shows "''--maven-settings'' \<in> set (buildArgs k a i out m)"
  using assms unfolding buildArgs_def by simp

lemma buildArgs_example_no_settings:
  "buildArgs exampleTarget exampleAnalysis ''/path/to/app'' ''/path/to/output'' [] =
   [''analyze'', ''--context-lines'', ''10'', ''--input'', ''/path/to/app'',
    ''--output'', ''/path/to/output'', ''--mode'', ''source-only'', ''--run-local=false'',
    ''--overwrite'']"
  by code_simp

text \<open>
  C9: the argument list is a function of the analysis configuration, the input path, the
  output directory and the settings value alone (the target it is called on does not
  matter); for the mode \<open>source-only\<close> it contains \<open>--mode\<close> followed by \<open>source-only\<close>;
  it contains \<open>--maven-settings\<close> followed by the settings value exactly when that
  value is not empty; and, when none of the strings the caller passes in (input path,
  output directory, selectors, targets, sources, rules) is itself \<open>--maven-settings\<close>,
  the flag \<open>--maven-settings\<close> occurs in the list exactly when the settings value is not
  empty.
\<close>

theorem buildArgs_contract:
  "buildArgs k a i out m = buildArgs k' a i out m \<and>
   (AnalysisMode a = SourceOnlyAnalysisMode \<longrightarrow>
      sublist [''--mode'', ''source-only''] (buildArgs k a i out m)) \<and>
   (sublist [''--maven-settings'', m] (buildArgs k a i out m) \<longleftrightarrow> m \<noteq> []) \<and>
   (''--maven-settings'' \<notin> {i, out, LabelSelector a, IncidentSelector a} \<union>
        set (Target a) \<union> set (Source a) \<union> set (Rules a) \<longrightarrow>
      (''--maven-settings'' \<in> set (buildArgs k a i out m) \<longleftrightarrow> m \<noteq> []))"
  using buildArgs_mode [of a k i out m] buildArgs_settings [of m k a i out]
    buildArgs_no_settings [of k a i out] buildArgs_receiver [of k a i out m k']
    buildArgs_no_flag [of i out a k] buildArgs_flag [of m k a i out]
  by blast

text \<open>
  C9, an instance: the source-only analysis of the tests, with the settings file
  \<open>/path/to/settings.xml\<close> and without one. With the file both pairs are in the list;
  without it the flag is not. Both lists are written out.
\<close>

theorem buildArgs_contract_witness:
  "AnalysisMode exampleAnalysis = SourceOnlyAnalysisMode \<and>
   sublist [''--mode'', ''source-only'']
     (buildArgs exampleTarget exampleAnalysis ''/path/to/app'' ''/path/to/output''
        ''/path/to/settings.xml'') \<and>
   sublist [''--maven-settings'', ''/path/to/settings.xml'']
     (buildArgs exampleTarget exampleAnalysis ''/path/to/app'' ''/path/to/output''
        ''/path/to/settings.xml'') \<and>
   buildArgs exampleTarget exampleAnalysis ''/path/to/app'' ''/path/to/output''
     ''/path/to/settings.xml'' =
   [''analyze'', ''--context-lines'', ''10'', ''--input'', ''/path/to/app'',
    ''--output'', ''/path/to/output'', ''--maven-settings'', ''/path/to/settings.xml'',
    ''--mode'', ''source-only'', ''--run-local=false'', ''--overwrite''] \<and>
   ''--maven-settings'' \<notin>
     {''/path/to/app'', ''/path/to/output'', LabelSelector exampleAnalysis,
      IncidentSelector exampleAnalysis} \<union>
     set (Target exampleAnalysis) \<union> set (Source exampleAnalysis) \<union> set (Rules exampleAnalysis) \<and>
   ''--maven-settings'' \<notin>
     set (buildArgs exampleTarget exampleAnalysis ''/path/to/app'' ''/path/to/output'' []) \<and>
   buildArgs exampleTarget exampleAnalysis ''/path/to/app'' ''/path/to/output'' [] =
   [''analyze'', ''--context-lines'', ''10'', ''--input'', ''/path/to/app'',
    ''--output'', ''/path/to/output'', ''--mode'', ''source-only'', ''--run-local=false'',
    ''--overwrite'']"
proof -
  have m: "AnalysisMode exampleAnalysis = SourceOnlyAnalysisMode"
    by (simp add: exampleAnalysis_def)
  have c: "''--maven-settings'' \<notin>
     {''/path/to/app'', ''/path/to/output'', LabelSelector exampleAnalysis,
      IncidentSelector exampleAnalysis} \<union>
     set (Target exampleAnalysis) \<union> set (Source exampleAnalysis) \<union> set (Rules exampleAnalysis)"
    by (simp add: exampleAnalysis_def)
  from buildArgs_contract [of exampleTarget exampleAnalysis "''/path/to/app''"
      "''/path/to/output''" "[]" exampleTarget] c
  have n: "''--maven-settings'' \<notin>
     set (buildArgs exampleTarget exampleAnalysis ''/path/to/app'' ''/path/to/output'' [])"
    by blast
  from buildArgs_contract [of exampleTarget exampleAnalysis "''/path/to/app''"
      "''/path/to/output''" "''/path/to/settings.xml''" exampleTarget] m
  have s: "sublist [''--mode'', ''source-only'']
     (buildArgs exampleTarget exampleAnalysis ''/path/to/app'' ''/path/to/output''
        ''/path/to/settings.xml'')"
    "sublist [''--maven-settings'', ''/path/to/settings.xml'']
     (buildArgs exampleTarget exampleAnalysis ''/path/to/app'' ''/path/to/output''
        ''/path/to/settings.xml'')"
    by simp_all
  from m s c n buildArgs_example buildArgs_example_no_settings show ?thesis
    by (intro conjI)
qed

section \<open>Properties of the validation loop\<close>

lemmas ruleset_checks = compareRuleSet_def checkErrors_def checkTags_def checkInsights_def
  checkViolations_def checkUnmatched_def checkSkipped_def

text \<open>
  No step of the validation removes an error, and every expected ruleset adds one. So a call
  that returns passes only for an empty list of expected rulesets.
\<close>

lemma forEach_grows:
  assumes "\<And>x s s'. x \<in> set xs \<Longrightarrow> body x s = Inr s' \<Longrightarrow> length s \<le> length s'"
    and "forEach xs body s = Inr s'"
  shows "length s \<le> length s'"
  using assms
proof (induction xs arbitrary: s)
  case Nil
  then show ?case by simp
next
  case (Cons x xs)
  from Cons.prems(2) obtain t where t: "body x s = Inr t" and r: "forEach xs body t = Inr s'"
    by (auto split: sum.splits)
  from Cons.prems(1) [of x s t] t have "length s \<le> length t" by simp
  moreover have "length t \<le> length s'"
    using Cons.prems(1) r by (intro Cons.IH) auto
  ultimately show ?case by simp
qed

lemma callStrings_grows:
  "callStrings c method expected actual errors = Inr errors' \<Longrightarrow> length errors \<le> length errors'"
  by (auto simp: callStrings_def appendIfOk_def split: option.splits if_splits prod.splits)

lemma callViolation_grows:
  "callViolation L c header expected actual errors = Inr errors' \<Longrightarrow>
     length errors \<le> length errors'"
  by (auto simp: callViolation_def Let_def split: option.splits if_splits prod.splits sum.splits)

lemma compareRuleSet_grows:
  assumes "compareRuleSet L c ers rs errors = Inr errors'"
  shows "length errors \<le> length errors'"
proof (cases "Name rs \<noteq> Name ers")
  case True
  with assms show ?thesis by (simp add: compareRuleSet_def)
next
  case False
  with assms obtain e1 e2 e3 e4 e5 where
    1: "checkErrors c ers rs errors = Inr e1" and 2: "checkTags c ers rs e1 = Inr e2" and
    3: "checkInsights L c ers rs e2 = Inr e3" and 4: "checkViolations L c ers rs e3 = Inr e4" and
    5: "checkUnmatched c ers rs e4 = Inr e5" and 6: "checkSkipped c ers rs e5 = Inr errors'"
    by (auto simp: compareRuleSet_def andThen_def split: sum.splits)
  have "length errors \<le> length e1"
    using 1 by (auto simp: checkErrors_def split: if_splits
        elim!: forEach_grows [rotated] dest: callStrings_grows)
  moreover have "length e1 \<le> length e2"
    using 2 by (auto simp: checkTags_def split: if_splits
        elim!: forEach_grows [rotated] dest: callStrings_grows)
  moreover have "length e2 \<le> length e3"
    using 3 by (auto simp: checkInsights_def split: if_splits
        elim!: forEach_grows [rotated] dest: callViolation_grows)
  moreover have "length e3 \<le> length e4"
    using 4 by (auto simp: checkViolations_def split: if_splits
        elim!: forEach_grows [rotated] dest: callViolation_grows)
  moreover have "length e4 \<le> length e5"
    using 5 by (auto simp: checkUnmatched_def split: if_splits
        elim!: forEach_grows [rotated] dest: callStrings_grows)
  moreover have "length e5 \<le> length errors'"
    using 6 by (auto simp: checkSkipped_def split: if_splits
        elim!: forEach_grows [rotated] dest: callStrings_grows)
  ultimately show ?thesis by simp
qed

lemma validateExpected_grows:
  assumes "validateExpected L c actual ers errors = Inr errors'"
  shows "length errors < length errors'"
proof -
  from assms obtain e1 where 1: "forEach actual (compareRuleSet L c ers) errors = Inr e1"
    and 2: "errors' = e1 @ [rulesetError ers]"
    by (auto simp: validateExpected_def andThen_def split: sum.splits)
  from 1 have "length errors \<le> length e1"
    by (rule forEach_grows [rotated]) (rule compareRuleSet_grows)
  with 2 show ?thesis by simp
qed

lemma forEach_validateExpected_grows:
  assumes "forEach expected (validateExpected L c actual) errors = Inr errors'"
  shows "length errors + length expected \<le> length errors'"
  using assms
proof (induction expected arbitrary: errors)
  case Nil
  then show ?case by simp
next
  case (Cons ers expected)
  then obtain e1 where 1: "validateExpected L c actual ers errors = Inr e1"
    and 2: "forEach expected (validateExpected L c actual) e1 = Inr errors'"
    by (auto split: sum.splits)
  from validateExpected_grows [OF 1] Cons.IH [OF 2] show ?case by simp
qed

lemma ValidateFiles_passes_only_empty:
  assumes "ValidateFiles L dir targetType actual expected = Inr res"
  shows "Passed res \<longleftrightarrow> expected = []"
proof -
  from assms obtain errors where
    1: "forEach expected (validateExpected L (getComparer targetType dir) actual) [] = Inr errors"
    and 2: "res = \<lparr>Passed = (length errors = 0), Errors = errors\<rparr>"
    by (auto simp: ValidateFiles_def andThen_def Let_def split: sum.splits)
  from forEach_validateExpected_grows [OF 1] have "length expected \<le> length errors" by simp
  moreover have "errors = []" if "expected = []"
    using 1 that by simp
  ultimately show ?thesis using 2 by auto
qed

text \<open>
  C7: validating an empty list of actual rulesets against one expected ruleset named
  \<open>r\<close> does not pass, and gives an error with the path \<open>ruleset/r\<close>. This holds for
  every such ruleset, whatever its other fields.
\<close>

theorem Validate_missing_ruleset:
  "Validate L [] [rs\<lparr>Name := ''r''\<rparr>] =
     Inr \<lparr>Passed = False,
          Errors = [\<lparr>Path = ''ruleset/r'', Message = [], Expected = ANil, Actual = ANil\<rparr>]\<rparr>"
  by (simp add: Validate_def ValidateFiles_def validateExpected_def andThen_def rulesetError_def)

text \<open>
  C1 says that validating a list of rulesets against itself passes. For the list of one
  ruleset named \<open>r\<close> with no other field set, the code returns \<open>Passed = false\<close> with the
  error \<open>ruleset/r\<close>, through \<open>Validate\<close> and through \<open>ValidateFiles\<close> with the CLI
  backend alike: that error is appended for every expected ruleset, found or not.
\<close>

theorem Validate_same_ruleset_fails:
  "Validate L [taggedRuleSet ''r'' None] [taggedRuleSet ''r'' None] =
     Inr \<lparr>Passed = False,
          Errors = [\<lparr>Path = ''ruleset/r'', Message = [], Expected = ANil, Actual = ANil\<rparr>]\<rparr> \<and>
   ValidateFiles L ''/test'' ''kantra'' [taggedRuleSet ''r'' None] [taggedRuleSet ''r'' None] =
     Inr \<lparr>Passed = False,
          Errors = [\<lparr>Path = ''ruleset/r'', Message = [], Expected = ANil, Actual = ANil\<rparr>]\<rparr>"
  by (simp add: Validate_def ValidateFiles_def validateExpected_def andThen_def rulesetError_def
      ruleset_checks taggedRuleSet_def zeroRuleSet_def mapsEqual_def deepEqualSlice_def
      deepEqualMap_def elems_def)

text \<open>
  C3 says that an expected link is found when an actual link has its title. For a
  violation whose one link has the title \<open>doc\<close> and the URL \<open>https://x\<close>, compared with
  itself, both comparers report the link as not found: the test in the loop compares the
  URL of the expected link with the title of the actual one.
\<close>

theorem compareViolation_same_link_missing:
  "kantra_compareViolation L k linkedViolation linkedViolation =
     Inr ([\<lparr>Path = [], Message = ''Did not find expected links: {https://x doc}'',
            Expected = AViolation linkedViolation, Actual = ANil\<rparr>], True) \<and>
   tackle2Hub_compareViolation L k linkedViolation linkedViolation =
     Inr ([\<lparr>Path = [], Message = ''Did not find expected links: {https://x doc}'',
            Expected = AViolation linkedViolation, Actual = ANil\<rparr>], True)"
  by (simp add: kantra_compareViolation_def tackle2Hub_compareViolation_def categoryErrors_def
      effortErrors_def linkErrors_def labelErrors_def ptrEq_def fmtLink_def elems_def
      linkedViolation_def zeroViolation_def)

subsection \<open>Without a comparer\<close>

lemma forEach_always_panics:
  assumes "\<And>x s. x \<in> set xs \<Longrightarrow> body x s = Inl p"
  shows "forEach xs body s = (if xs = [] then Inr s else Inl p)"
  using assms by (cases xs) auto

lemma checkErrors_nil:
  "checkErrors None ers rs errors =
     (if \<not> mapsEqual (Errors_rs ers) (Errors_rs rs) \<and> elems (Errors_rs ers) \<noteq> []
      then Inl NilDereference else Inr errors)"
  unfolding checkErrors_def
  by (subst forEach_always_panics [where p = NilDereference])
     (auto simp: callStrings_def)

lemma checkTags_nil:
  "checkTags None ers rs errors =
     (if \<not> deepEqualSlice (=) (Tags rs) (Tags ers) \<and> elems (Tags ers) \<noteq> []
      then Inl NilDereference else Inr errors)"
  unfolding checkTags_def
  by (subst forEach_always_panics [where p = NilDereference])
     (auto simp: callStrings_def)

lemma checkInsights_nil:
  "checkInsights L None ers rs errors =
     (if \<not> deepEqualMap deepEqualViolation (Insights rs) (Insights ers) \<and>
         elems (Insights ers) \<noteq> []
      then Inl NilDereference else Inr errors)"
  unfolding checkInsights_def
  by (subst forEach_always_panics [where p = NilDereference])
     (auto simp: callViolation_def)

lemma checkViolations_nil:
  "checkViolations L None ers rs errors =
     (if \<not> deepEqualMap deepEqualViolation (Violations rs) (Violations ers) \<and>
         elems (Violations ers) \<noteq> []
      then Inl NilDereference else Inr errors)"
  unfolding checkViolations_def
  by (subst forEach_always_panics [where p = NilDereference])
     (auto simp: callViolation_def)

lemma checkUnmatched_nil:
  "checkUnmatched None ers rs errors =
     (if \<not> deepEqualSlice (=) (Unmatched rs) (Unmatched ers) \<and> elems (Unmatched ers) \<noteq> []
      then Inl NilDereference else Inr errors)"
  unfolding checkUnmatched_def
  by (subst forEach_always_panics [where p = NilDereference])
     (auto simp: callStrings_def)

lemma checkSkipped_nil:
  "checkSkipped None ers rs errors =
     (if \<not> deepEqualSlice (=) (Skipped rs) (Skipped ers) \<and> elems (Skipped ers) \<noteq> []
      then Inl NilDereference else Inr errors)"
  unfolding checkSkipped_def
  by (subst forEach_always_panics [where p = NilDereference])
     (auto simp: callStrings_def)

lemma compareRuleSet_nil:
  "compareRuleSet L None ers rs errors =
     (if Name rs = Name ers \<and> usesComparer ers rs then Inl NilDereference else Inr errors)"
  by (simp add: compareRuleSet_def andThen_def usesComparer_def checkErrors_nil checkTags_nil
      checkInsights_nil checkViolations_nil checkUnmatched_nil checkSkipped_nil)

lemma forEach_compareRuleSet_nil:
  "forEach actual (compareRuleSet L None ers) errors =
     (if \<exists>rs\<in>set actual. Name rs = Name ers \<and> usesComparer ers rs
      then Inl NilDereference else Inr errors)"
  by (induction actual) (auto simp: compareRuleSet_nil)

lemma forEach_validateExpected_nil:
  "forEach expected (validateExpected L None actual) errors =
     (if \<exists>ers\<in>set expected. \<exists>rs\<in>set actual. Name rs = Name ers \<and> usesComparer ers rs
      then Inl NilDereference else Inr (errors @ map rulesetError expected))"
  by (induction expected arbitrary: errors)
     (auto simp: validateExpected_def andThen_def forEach_compareRuleSet_nil)

lemma tags_differ: "\<not> deepEqualSlice (=) (Some [''t'']) (None :: string slice)"
  by (simp add: deepEqualSlice_def)

lemma Validate_tags_only_actual:
  "Validate exampleLibrary [taggedRuleSet ''r'' (Some [''t''])] [taggedRuleSet ''r'' None] =
     Inr \<lparr>Passed = False,
          Errors = [\<lparr>Path = ''ruleset/r'', Message = [], Expected = ANil, Actual = ANil\<rparr>]\<rparr>"
  by (simp add: Validate_def ValidateFiles_def validateExpected_def andThen_def rulesetError_def
      ruleset_checks taggedRuleSet_def zeroRuleSet_def mapsEqual_def deepEqualSlice_def
      deepEqualMap_def elems_def getComparer_def)

text \<open>
  C2, as stated: without a comparer the validation returns only when every matched pair
  of rulesets is equal in each compared field. Here the actual ruleset \<open>r\<close> has the tag
  \<open>t\<close> and the expected ruleset \<open>r\<close> has no tags: the tags differ, yet the two-argument
  \<open>Validate\<close> returns, because the loop over the expected tags has nothing to visit and
  never reaches the comparer.
\<close>

theorem Validate_nil_comparer_counterexample:
  "Tags (taggedRuleSet ''r'' (Some [''t'']) :: unit RuleSet) = Some [''t''] \<and>
   Tags (taggedRuleSet ''r'' None :: unit RuleSet) = None \<and>
   \<not> deepEqualSlice (=) (Some [''t'']) (None :: string slice) \<and>
   Validate exampleLibrary [taggedRuleSet ''r'' (Some [''t''])] [taggedRuleSet ''r'' None] =
     Inr \<lparr>Passed = False,
          Errors = [\<lparr>Path = ''ruleset/r'', Message = [], Expected = ANil, Actual = ANil\<rparr>]\<rparr>"
  using tags_differ Validate_tags_only_actual by (simp add: taggedRuleSet_def)

text \<open>
  C2, amended: for every target type outside the five known names \<open>getComparer\<close>
  returns nil, and \<open>ValidateFiles\<close> then panics on the nil comparer exactly when some
  expected ruleset and some actual ruleset of the same name differ in a compared field
  (errors, tags, insights, violations, unmatched, skipped) whose expected side is not
  empty; otherwise it returns, with one \<open>ruleset/<name>\<close> error for each expected ruleset.
\<close>

theorem ValidateFiles_unknown_target:
  assumes "targetType \<notin> {''kantra'', ''tackle-hub'', ''tackle-ui'', ''kai-rpc'', ''vscode''}"
  shows "getComparer targetType dir = None \<and>
    ValidateFiles L dir targetType actual expected =
      (if \<exists>ers\<in>set expected. \<exists>rs\<in>set actual. Name rs = Name ers \<and> usesComparer ers rs
       then Inl NilDereference
       else Inr \<lparr>Passed = (expected = []), Errors = map rulesetError expected\<rparr>)"
proof -
  from assms have c: "getComparer targetType dir = None"
    by (simp add: getComparer_def)
  then show ?thesis
    by (simp add: ValidateFiles_def andThen_def forEach_validateExpected_nil)
qed

text \<open>
  C2, an instance: the empty target type is none of the five names. With the expected
  tags \<open>t\<close>, \<open>u\<close> and the actual tag \<open>t\<close> on the ruleset \<open>r\<close> the call panics.
\<close>

theorem ValidateFiles_unknown_target_witness:
  "[] \<notin> {''kantra'', ''tackle-hub'', ''tackle-ui'', ''kai-rpc'', ''vscode''} \<and>
   getComparer [] [] = None \<and>
   ValidateFiles exampleLibrary [] [] [taggedRuleSet ''r'' (Some [''t''])]
     [taggedRuleSet ''r'' (Some [''t'', ''u''])] = Inl NilDereference"
proof -
  have h: "[] \<notin> {''kantra'', ''tackle-hub'', ''tackle-ui'', ''kai-rpc'', ''vscode''}"
    by simp
  have u: "usesComparer (taggedRuleSet ''r'' (Some [''t'', ''u'']) :: unit RuleSet)
      (taggedRuleSet ''r'' (Some [''t'']))"
    by (simp add: usesComparer_def taggedRuleSet_def deepEqualSlice_def elems_def)
  from ValidateFiles_unknown_target [OF h, of "[]" exampleLibrary
      "[taggedRuleSet ''r'' (Some [''t''])]" "[taggedRuleSet ''r'' (Some [''t'', ''u''])]"] u h
  show ?thesis
    by (simp add: taggedRuleSet_def)
qed

section \<open>Properties of the violation comparison\<close>

subsection \<open>The order of the actual incidents\<close>

text \<open>
  A \<open>break\<close> in the incident loop comes from \<open>filepath.Rel\<close> failing, which depends on
  the expected incident alone; then no actual incident is found or panics. So the outcome
  of the loop is decided by which actions occur, not by where.
\<close>

lemma findIncident_closed:
  assumes "\<forall>x\<in>set as. body x = Break \<longrightarrow> (\<forall>y\<in>set as. body y = Continue \<or> body y = Break)"
  shows "findIncident body as found =
     (if \<exists>x\<in>set as. body x = Panics then Inl NotAFileURI
      else Inr (found \<or> (\<exists>x\<in>set as. body x = SetFound)))"
  using assms
proof (induction as arbitrary: found)
  case Nil
  show ?case by simp
next
  case (Cons a as)
  have tail: "\<forall>x\<in>set as. body x = Break \<longrightarrow> (\<forall>y\<in>set as. body y = Continue \<or> body y = Break)"
    using Cons.prems by auto
  show ?case
  proof (cases "body a")
    case Break
    with Cons.prems have "\<forall>y\<in>set (a # as). body y = Continue \<or> body y = Break"
      by auto
    then have "\<not> (\<exists>x\<in>set (a # as). body x = Panics)" "\<not> (\<exists>x\<in>set (a # as). body x = SetFound)"
      by auto
    with Break show ?thesis by simp
  qed (use Cons.IH [OF tail] in auto)
qed

lemma incidentRest_cases: "incidentRest i ai = Continue \<or> incidentRest i ai = SetFound"
  by (simp add: incidentRest_def)

lemma pathStep_break:
  assumes "pathStep L k i x = Break"
  shows "pathStep L k i y = Break"
  using assms incidentRest_cases [of i x]
  by (auto simp: pathStep_def split: option.splits if_splits)

lemma kantra_body_break:
  assumes "kantra_incidentBody L k i x = Break"
  shows "kantra_incidentBody L k i y = Continue \<or> kantra_incidentBody L k i y = Break"
proof -
  from assms incidentRest_cases [of i x]
  have "pathStep L k i x = Break" "URI i \<noteq> []"
    by (auto simp: kantra_incidentBody_def split: if_splits)
  then show ?thesis
    using pathStep_break [of L k i x y] by (auto simp: kantra_incidentBody_def)
qed

lemma kantra_find_set:
  assumes "set as = set bs"
  shows "findIncident (kantra_incidentBody L k i) as found =
         findIncident (kantra_incidentBody L k i) bs found"
proof -
  have a: "\<forall>x\<in>set as. kantra_incidentBody L k i x = Break \<longrightarrow>
      (\<forall>y\<in>set as. kantra_incidentBody L k i y = Continue \<or> kantra_incidentBody L k i y = Break)"
    using kantra_body_break by blast
  have b: "\<forall>x\<in>set bs. kantra_incidentBody L k i x = Break \<longrightarrow>
      (\<forall>y\<in>set bs. kantra_incidentBody L k i y = Continue \<or> kantra_incidentBody L k i y = Break)"
    using kantra_body_break by blast
  show ?thesis
    by (simp add: findIncident_closed [OF a] findIncident_closed [OF b] assms)
qed

lemma tackle2Hub_find_set:
  assumes "set as = set bs"
  shows "findIncident (tackle2Hub_incidentBody L k i) as found =
         findIncident (tackle2Hub_incidentBody L k i) bs found"
proof -
  have a: "\<forall>x\<in>set as. tackle2Hub_incidentBody L k i x = Break \<longrightarrow>
      (\<forall>y\<in>set as. tackle2Hub_incidentBody L k i y = Continue \<or> tackle2Hub_incidentBody L k i y = Break)"
    using pathStep_break unfolding tackle2Hub_incidentBody_def by blast
  have b: "\<forall>x\<in>set bs. tackle2Hub_incidentBody L k i x = Break \<longrightarrow>
      (\<forall>y\<in>set bs. tackle2Hub_incidentBody L k i y = Continue \<or> tackle2Hub_incidentBody L k i y = Break)"
    using pathStep_break unfolding tackle2Hub_incidentBody_def by blast
  show ?thesis
    by (simp add: findIncident_closed [OF a] findIncident_closed [OF b] assms)
qed

lemma kantra_missing_set:
  assumes "set as = set bs"
  shows "kantra_missingIncidents L k es as = kantra_missingIncidents L k es bs"
  by (induction es) (simp_all add: kantra_find_set [OF assms] cong: sum.case_cong)

lemma tackle2Hub_errors_set:
  assumes "set as = set bs"
  shows "tackle2Hub_incidentErrors L k e es as = tackle2Hub_incidentErrors L k e es bs"
  by (induction es) (simp_all add: tackle2Hub_find_set [OF assms] cong: sum.case_cong)

lemma errors_ignore_incidents:
  "categoryErrors e (a\<lparr>Incidents := v\<rparr>) = categoryErrors e a"
  "effortErrors e (a\<lparr>Incidents := v\<rparr>) = effortErrors e a"
  "linkErrors e (a\<lparr>Incidents := v\<rparr>) = linkErrors e a"
  "labelErrors e (a\<lparr>Incidents := v\<rparr>) = labelErrors e a"
  by (simp_all add: categoryErrors_def effortErrors_def linkErrors_def labelErrors_def)

lemma missingError_length:
  assumes "length (elems (Incidents a')) = length (elems (Incidents a))"
  shows "missingError e a' m = missingError e a m"
  using assms by (simp add: missingError_def)

lemma exchange_nil_comparer:
  "Validate exampleLibrary
     [violationRuleSet ''r'' (violationWith [incidentAt ''file:///test/file.go'' ''x'',
                                             incidentAt ''file:///test/other.go'' ''y''])]
     [violationRuleSet ''r'' (violationWith [incidentAt ''file:///test/file.go'' ''x'',
                                             incidentAt ''file:///test/other.go'' ''y''])] =
   Inr \<lparr>Passed = False,
        Errors = [\<lparr>Path = ''ruleset/r'', Message = [], Expected = ANil, Actual = ANil\<rparr>]\<rparr>"
  "Validate exampleLibrary
     [violationRuleSet ''r'' (violationWith [incidentAt ''file:///test/other.go'' ''y'',
                                             incidentAt ''file:///test/file.go'' ''x''])]
     [violationRuleSet ''r'' (violationWith [incidentAt ''file:///test/file.go'' ''x'',
                                             incidentAt ''file:///test/other.go'' ''y''])] =
   Inl NilDereference"
  by code_simp+

lemma exchange_kantra:
  "ValidateFiles exampleLibrary ''/test'' ''kantra''
     [violationRuleSet ''r'' (violationWith [incidentAt ''file:///test/file.go'' ''x'',
                                             incidentAt ''file:///test/other.go'' ''y''])]
     [violationRuleSet ''r'' (violationWith [incidentAt ''file:///test/file.go'' ''x'',
                                             incidentAt ''file:///test/other.go'' ''y''])] =
   Inr \<lparr>Passed = False,
        Errors = [\<lparr>Path = ''ruleset/r'', Message = [], Expected = ANil, Actual = ANil\<rparr>]\<rparr>"
  "ValidateFiles exampleLibrary ''/test'' ''kantra''
     [violationRuleSet ''r'' (violationWith [incidentAt ''file:///test/other.go'' ''y'',
                                             incidentAt ''file:///test/file.go'' ''x''])]
     [violationRuleSet ''r'' (violationWith [incidentAt ''file:///test/file.go'' ''x'',
                                             incidentAt ''file:///test/other.go'' ''y''])] =
   Inr \<lparr>Passed = False,
        Errors =
          [\<lparr>Path = [],
            Message = ''Did not find violations'' @ [CHR 0x0A, CHR 0x09, CHR 0x0A, CHR 0x09] @
              ''Missing 2 incident(s) for files: file:///test/file.go, file:///test/other.go'',
            Expected = AViolation (violationWith [incidentAt ''file:///test/file.go'' ''x'',
                                                  incidentAt ''file:///test/other.go'' ''y'']),
            Actual = ANil\<rparr>,
           \<lparr>Path = ''ruleset/r'', Message = [], Expected = ANil, Actual = ANil\<rparr>]\<rparr>"
  by code_simp+

text \<open>
  C8, as stated: putting the incidents of the actual violation in another order changes
  neither the errors of the violation comparison nor the overall verdict. The validation
  loop compares the violations position by position first, and calls the comparer only
  when they differ. Here the expected and the actual ruleset hold the same violation
  with two incidents. In the same order the two-argument \<open>Validate\<close> returns; with the
  actual incidents exchanged it panics on the nil comparer. With the CLI comparer both
  calls return, and the exchange adds the error of the violation comparison.
\<close>

theorem Validate_exchange_counterexample:
  "mset [incidentAt ''file:///test/other.go'' ''y'',
         incidentAt ''file:///test/file.go'' ''x'' :: unit Incident] =
   mset [incidentAt ''file:///test/file.go'' ''x'', incidentAt ''file:///test/other.go'' ''y''] \<and>
   Validate exampleLibrary
     [violationRuleSet ''r'' (violationWith [incidentAt ''file:///test/file.go'' ''x'',
                                             incidentAt ''file:///test/other.go'' ''y''])]
     [violationRuleSet ''r'' (violationWith [incidentAt ''file:///test/file.go'' ''x'',
                                             incidentAt ''file:///test/other.go'' ''y''])] =
   Inr \<lparr>Passed = False,
        Errors = [\<lparr>Path = ''ruleset/r'', Message = [], Expected = ANil, Actual = ANil\<rparr>]\<rparr> \<and>
   Validate exampleLibrary
     [violationRuleSet ''r'' (violationWith [incidentAt ''file:///test/other.go'' ''y'',
                                             incidentAt ''file:///test/file.go'' ''x''])]
     [violationRuleSet ''r'' (violationWith [incidentAt ''file:///test/file.go'' ''x'',
                                             incidentAt ''file:///test/other.go'' ''y''])] =
   Inl NilDereference \<and>
   ValidateFiles exampleLibrary ''/test'' ''kantra''
     [violationRuleSet ''r'' (violationWith [incidentAt ''file:///test/file.go'' ''x'',
                                             incidentAt ''file:///test/other.go'' ''y''])]
     [violationRuleSet ''r'' (violationWith [incidentAt ''file:///test/file.go'' ''x'',
                                             incidentAt ''file:///test/other.go'' ''y''])] =
   Inr \<lparr>Passed = False,
        Errors = [\<lparr>Path = ''ruleset/r'', Message = [], Expected = ANil, Actual = ANil\<rparr>]\<rparr> \<and>
   ValidateFiles exampleLibrary ''/test'' ''kantra''
     [violationRuleSet ''r'' (violationWith [incidentAt ''file:///test/other.go'' ''y'',
                                             incidentAt ''file:///test/file.go'' ''x''])]
     [violationRuleSet ''r'' (violationWith [incidentAt ''file:///test/file.go'' ''x'',
                                             incidentAt ''file:///test/other.go'' ''y''])] =
   Inr \<lparr>Passed = False,
        Errors =
          [\<lparr>Path = [],
            Message = ''Did not find violations'' @ [CHR 0x0A, CHR 0x09, CHR 0x0A, CHR 0x09] @
              ''Missing 2 incident(s) for files: file:///test/file.go, file:///test/other.go'',
            Expected = AViolation (violationWith [incidentAt ''file:///test/file.go'' ''x'',
                                                  incidentAt ''file:///test/other.go'' ''y'']),
            Actual = ANil\<rparr>,
           \<lparr>Path = ''ruleset/r'', Message = [], Expected = ANil, Actual = ANil\<rparr>]\<rparr>"
  using exchange_nil_comparer exchange_kantra by simp

text \<open>
  C8, amended: for either comparer, every expected violation and every actual violation,
  putting the incidents of the actual violation in another order leaves the result of
  \<open>compareViolation\<close> as it is: the same errors and the same verdict of the comparison
  (or the same panic). This is a property of the comparison alone, not of the validation
  loop that decides whether to call it.
\<close>

theorem compareViolation_permutation:
  assumes "Incidents a = Some xs" and "mset ys = mset xs"
  shows "compareViolation L c e (a\<lparr>Incidents := Some ys\<rparr>) = compareViolation L c e a"
proof -
  from assms(2) have s: "set ys = set xs" and l: "length ys = length xs"
    by (auto dest: mset_eq_setD mset_eq_length)
  have el: "elems (Some ys) = ys" "elems (Incidents a) = xs"
    using assms(1) by (simp_all add: elems_def)
  have me: "missingError e (a\<lparr>Incidents := Some ys\<rparr>) m = missingError e a m" for m
    by (rule missingError_length) (simp add: assms(1) elems_def l)
  show ?thesis
  proof (cases c)
    case (KantraComparer k)
    then show ?thesis
      by (simp add: kantra_compareViolation_def errors_ignore_incidents el me
          kantra_missing_set [OF s] Let_def cong: sum.case_cong if_cong)
  next
    case (Tackle2HubComparer k)
    then show ?thesis
      by (simp add: tackle2Hub_compareViolation_def errors_ignore_incidents el
          tackle2Hub_errors_set [OF s] Let_def cong: sum.case_cong)
  qed
qed


lemma compareViolation_example:
  "compareViolation exampleLibrary (KantraComparer \<lparr>testDir = ''/test''\<rparr>)
     (violationWith [incidentAt ''file:///test/source/a.go'' ''x''])
     (violationWith [incidentAt ''file:///test/source/b.go'' ''y'',
                     incidentAt ''file:///test/source/a.go'' ''x'']) = Inr ([], False)"
  by code_simp


text \<open>
  C8, an instance: two actual incidents in the files \<open>a.go\<close> and \<open>b.go\<close> below
  \<open>/test/source\<close> and their exchange; the expected incident in \<open>a.go\<close> is found.
\<close>

theorem compareViolation_permutation_witness:
  "Incidents (violationWith [incidentAt ''file:///test/source/a.go'' ''x'',
                             incidentAt ''file:///test/source/b.go'' ''y''] :: unit Violation) =
     Some [incidentAt ''file:///test/source/a.go'' ''x'', incidentAt ''file:///test/source/b.go'' ''y''] \<and>
   mset [incidentAt ''file:///test/source/b.go'' ''y'', incidentAt ''file:///test/source/a.go'' ''x'' :: unit Incident] =
     mset [incidentAt ''file:///test/source/a.go'' ''x'', incidentAt ''file:///test/source/b.go'' ''y''] \<and>
   compareViolation exampleLibrary (KantraComparer \<lparr>testDir = ''/test''\<rparr>)
     (violationWith [incidentAt ''file:///test/source/a.go'' ''x''])
     (violationWith [incidentAt ''file:///test/source/a.go'' ''x'',
                     incidentAt ''file:///test/source/b.go'' ''y'']) = Inr ([], False)"
proof -
  let ?i1 = "incidentAt ''file:///test/source/a.go'' ''x'' :: unit Incident"
  let ?i2 = "incidentAt ''file:///test/source/b.go'' ''y'' :: unit Incident"
  have a: "Incidents (violationWith [?i1, ?i2]) = Some [?i1, ?i2]"
    by (simp add: violationWith_def)
  have m: "mset [?i2, ?i1] = mset [?i1, ?i2]"
    by simp
  have v: "(violationWith [?i1, ?i2])\<lparr>Incidents := Some [?i2, ?i1]\<rparr> = violationWith [?i2, ?i1]"
    by (simp add: violationWith_def)
  from compareViolation_permutation [OF a m, of exampleLibrary
      "KantraComparer \<lparr>testDir = ''/test''\<rparr>" "violationWith [?i1]"]
  show ?thesis
    using a m compareViolation_example by (simp add: v)
qed

subsection \<open>The code snippet of an incident\<close>

















text \<open>
  Category, effort and line number are compared by address. Two violations whose
  categories are equal strings behind different pointers are reported to differ, by both
  comparers.
\<close>

lemma compareViolation_pointer_example:
  "kantra_compareViolation exampleLibrary \<lparr>testDir = ''/test''\<rparr>
     (zeroViolation\<lparr>Category := Some (1, ''mandatory'')\<rparr>)
     (zeroViolation\<lparr>Category := Some (2, ''mandatory'')\<rparr>) =
   Inr ([\<lparr>Path = [], Message = ''Did not find expected category: 0x1'',
          Expected = AViolation (zeroViolation\<lparr>Category := Some (1, ''mandatory'')\<rparr>),
          Actual = ANil\<rparr>], True)"
  "tackle2Hub_compareViolation exampleLibrary \<lparr>testDir = ''/test''\<rparr>
     (zeroViolation\<lparr>Category := Some (1, ''mandatory'')\<rparr>)
     (zeroViolation\<lparr>Category := Some (2, ''mandatory'')\<rparr>) =
   Inr ([\<lparr>Path = [], Message = ''Did not find expected category: 0x1'',
          Expected = AViolation (zeroViolation\<lparr>Category := Some (1, ''mandatory'')\<rparr>),
          Actual = ANil\<rparr>], True)"
  by code_simp+



lemma kantra_snippet_example:
  "kantra_compareViolation exampleLibrary \<lparr>testDir = ''/test''\<rparr>
     (violationWith [incidentAt ''file:///test/source/a.go'' ''x'',
                     incidentAt ''file:///test/source/b.go'' ''y''])
     (violationWith [incidentAt ''file:///test/source/a.go'' ''x'',
                     incidentAt ''file:///test/source/b.go'' ''z'']) =
   Inr ([\<lparr>Path = [],
          Message = ''Missing 1 incident(s) for files: file:///test/source/b.go'',
          Expected = AString ''2 incidents'',
          Actual = AString ''2 incidents (missing 1)''\<rparr>], True)"
  by code_simp




end
